theory Spec2Isabelle
  imports Main "HOL-Library.Char_ord" "HOL-Library.List_Lexorder" "HOL-Library.Multiset"
begin

section \<open>Python values\<close>

text \<open>
  The values that \<^verbatim>\<open>yaml.safe_load\<close> hands to the program and that the program passes
  around: \<^verbatim>\<open>None\<close>, booleans, integers, strings, lists and dicts. A dict is an association
  list in insertion order (Python dicts keep it). Strings are byte strings (UTF-8); their
  order under \<open>HOL-Library.List_Lexorder\<close> and \<open>HOL-Library.Char_ord\<close> is the
  code-point order Python compares \<^verbatim>\<open>str\<close> by. Floats, timestamps and binaries, which the
  decoder can also produce, are not represented.
\<close>

datatype pyval =
    PNone
  | PBool bool
  | PInt int
  | PStr string
  | PList "pyval list"
  | PDict "(pyval \<times> pyval) list"

fun str_nat :: "nat \<Rightarrow> string" where
  "str_nat n =
     (if n < 10 then [char_of (48 + n)]
      else str_nat (n div 10) @ [char_of (48 + n mod 10)])"

declare str_nat.simps [simp del]

definition str_int :: "int \<Rightarrow> string" where
  "str_int i = (if i < 0 then CHR ''-'' # str_nat (nat (- i)) else str_nat (nat i))"

text \<open>\<^verbatim>\<open>sep.join(xs)\<close> on a list of strings.\<close>

fun join :: "string \<Rightarrow> string list \<Rightarrow> string" where
  "join sep [] = []"
| "join sep [x] = x"
| "join sep (x # y # ys) = x @ sep @ join sep (y # ys)"

definition hex_digit :: "nat \<Rightarrow> char" where
  "hex_digit n = (if n < 10 then char_of (48 + n) else char_of (87 + n))"

text \<open>
  \<^verbatim>\<open>repr\<close> of a string: double quotes are chosen when the text has a single quote and no
  double quote; the quote and the backslash are escaped, tab, newline and carriage return
  are written \<^verbatim>\<open>\t \n \r\<close>, other control characters \<^verbatim>\<open>\xNN\<close>. Bytes from \<open>0x80\<close>
  on are kept (they encode printable characters).
\<close>

definition repr_quote :: "string \<Rightarrow> char" where
  "repr_quote s = (if CHR 0x27 \<in> set s \<and> CHR 0x22 \<notin> set s then CHR 0x22 else CHR 0x27)"

definition repr_char :: "char \<Rightarrow> char \<Rightarrow> string" where
  "repr_char q c =
     (if c = q \<or> c = CHR 0x5C then [CHR 0x5C, c]
      else if c = CHR 0x09 then [CHR 0x5C, CHR ''t'']
      else if c = CHR 0x0A then [CHR 0x5C, CHR ''n'']
      else if c = CHR 0x0D then [CHR 0x5C, CHR ''r'']
      else if of_char c < (32 :: nat) \<or> c = CHR 0x7F
        then [CHR 0x5C, CHR ''x'', hex_digit (of_char c div 16), hex_digit (of_char c mod 16)]
      else [c])"

definition repr_str :: "string \<Rightarrow> string" where
  "repr_str s = (let q = repr_quote s in q # concat (map (repr_char q) s) @ [q])"

fun py_repr :: "pyval \<Rightarrow> string" where
  "py_repr PNone = ''None''"
| "py_repr (PBool b) = (if b then ''True'' else ''False'')"
| "py_repr (PInt i) = str_int i"
| "py_repr (PStr s) = repr_str s"
| "py_repr (PList xs) = ''['' @ join '', '' (map py_repr xs) @ '']''"
| "py_repr (PDict kvs) =
     ''{'' @ join '', '' (map (\<lambda>kv. py_repr (fst kv) @ '': '' @ py_repr (snd kv)) kvs) @ ''}''"

text \<open>\<^verbatim>\<open>'{}'.format(v)\<close> and \<^verbatim>\<open>str(v)\<close>: a string is itself, anything else its \<^verbatim>\<open>repr\<close>.\<close>

fun py_str :: "pyval \<Rightarrow> string" where
  "py_str (PStr s) = s"
| "py_str v = py_repr v"

text \<open>\<^verbatim>\<open>type(v).__name__\<close>.\<close>

fun type_name :: "pyval \<Rightarrow> string" where
  "type_name PNone = ''NoneType''"
| "type_name (PBool _) = ''bool''"
| "type_name (PInt _) = ''int''"
| "type_name (PStr _) = ''str''"
| "type_name (PList _) = ''list''"
| "type_name (PDict _) = ''dict''"

section \<open>Exceptions, the environment and its trace\<close>

text \<open>
  Every exception the modelled code can raise, by class. \<^verbatim>\<open>GitError\<close> (git.py) and
  \<^verbatim>\<open>StateParseError\<close> (statetree.py) carry their message; the others are the
  interpreter's (\<^verbatim>\<open>UnicodeDecodeError\<close> is a subclass of \<^verbatim>\<open>ValueError\<close>, the last two
  are subclasses of \<^verbatim>\<open>OSError\<close>).
\<close>

datatype exn =
    is_GitError: GitError string
  | is_StateParseError: StateParseError string
  | TypeError
  | AttributeError
  | ValueError
  | UnicodeDecodeError
  | IsADirectoryError
  | PermissionError

text \<open>The class of an exception, which is what an \<^verbatim>\<open>except\<close> clause selects by.\<close>

fun class_of :: "exn \<Rightarrow> string" where
  "class_of (GitError _) = ''GitError''"
| "class_of (StateParseError _) = ''StateParseError''"
| "class_of TypeError = ''TypeError''"
| "class_of AttributeError = ''AttributeError''"
| "class_of ValueError = ''ValueError''"
| "class_of UnicodeDecodeError = ''UnicodeDecodeError''"
| "class_of IsADirectoryError = ''IsADirectoryError''"
| "class_of PermissionError = ''PermissionError''"

text \<open>
  What the program does to the outside: a git process started for the working copy of a
  repository URL (\<open>Exec repo argv\<close>), and a line written to standard output.
\<close>

datatype event = Exec pyval "string list" | Print string

text \<open>
  The decoder builds one object for a YAML anchor and puts it wherever an alias names it.
  The validator changes dicts in place, so for dicts it matters which places hold the
  same object. A place holds either a value of its own (\<open>Val\<close>) or the shared dict of a
  number (\<open>Obj\<close>); a store lists the shared dicts by number, each with its pairs, whose
  values are places again (the first entry of a number counts). A shared dict holds only
  shared dicts of smaller numbers: documents that contain themselves are not represented.
\<close>

datatype cell = Val pyval | Obj nat

type_synonym store = "(nat \<times> (pyval \<times> cell) list) list"

definition fetch :: "store \<Rightarrow> nat \<Rightarrow> (pyval \<times> cell) list" where
  "fetch h a = (case map_of h a of None \<Rightarrow> [] | Some d \<Rightarrow> d)"

text \<open>
  A decoded document: a value in which every object is held at one place only, or a
  sequence of places over a store.
\<close>

datatype document = Tree pyval | Aliased "cell list" store

text \<open>
  What reading and decoding \<^verbatim>\<open>states.yaml\<close> in the checked-out working copy gives:
  \<^verbatim>\<open>open\<close> raises \<^verbatim>\<open>FileNotFoundError\<close>; \<^verbatim>\<open>yaml.safe_load\<close> raises a \<^verbatim>\<open>YAMLError\<close>
  (with its text); \<^verbatim>\<open>open\<close> or \<^verbatim>\<open>yaml.safe_load\<close> raises an exception of another
  class (\<^verbatim>\<open>IsADirectoryError\<close> for a directory of that name, \<^verbatim>\<open>UnicodeDecodeError\<close> for
  bytes that are no text, \<^verbatim>\<open>ValueError\<close> for a date such as \<^verbatim>\<open>2001-02-30\<close>); or the
  decoded document.
\<close>

datatype manifest = FileNotFoundError | YAMLError string | Raised exn | Loaded document

text \<open>
  The outside world: the exit status and combined output of a git process, and the
  manifest read, each as a function of everything done so far.
\<close>

record world =
  run_git :: "event list \<Rightarrow> pyval \<Rightarrow> string list \<Rightarrow> int \<times> string"
  read_manifest :: "event list \<Rightarrow> manifest"

section \<open>git.py\<close>

text \<open>
  A Python string is a sequence of characters; here it is their UTF-8 bytes. \<open>chars\<close>
  cuts the bytes into characters, by the length the first byte of each announces in its
  leading bits (\<open>0xxxxxxx\<close> one byte, \<open>110xxxxx\<close> two, \<open>1110xxxx\<close> three, \<open>11110xxx\<close>
  four).
\<close>

fun width :: "char \<Rightarrow> nat" where
  "width (Char b0 b1 b2 b3 b4 b5 b6 b7) =
     (if b7 \<and> b6 then (if b5 then (if b4 then 4 else 3) else 2) else 1)"

function chars :: "string \<Rightarrow> string list" where
  "chars [] = []"
| "chars (b # bs) = (b # take (width b - 1) bs) # chars (drop (width b - 1) bs)"
  by pat_completeness auto
termination
  by (relation "measure length") auto

text \<open>
  The characters \<^verbatim>\<open>str.isspace\<close>, \<^verbatim>\<open>str.strip()\<close> and the \<^verbatim>\<open>\s\<close> of a pattern over
  \<^verbatim>\<open>str\<close> take for white space, in UTF-8: U+0009 to U+000D, U+001C to U+0020, U+0085,
  U+00A0, U+1680, U+2000 to U+200A, U+2028, U+2029, U+202F, U+205F and U+3000.
\<close>

definition whitespace :: "string list" where
  "whitespace =
     [[CHR 0x09], [CHR 0x0A], [CHR 0x0B], [CHR 0x0C], [CHR 0x0D],
      [CHR 0x1C], [CHR 0x1D], [CHR 0x1E], [CHR 0x1F], [CHR 0x20],
      [CHR 0xC2, CHR 0x85], [CHR 0xC2, CHR 0xA0], [CHR 0xE1, CHR 0x9A, CHR 0x80],
      [CHR 0xE2, CHR 0x80, CHR 0x80], [CHR 0xE2, CHR 0x80, CHR 0x81],
      [CHR 0xE2, CHR 0x80, CHR 0x82], [CHR 0xE2, CHR 0x80, CHR 0x83],
      [CHR 0xE2, CHR 0x80, CHR 0x84], [CHR 0xE2, CHR 0x80, CHR 0x85],
      [CHR 0xE2, CHR 0x80, CHR 0x86], [CHR 0xE2, CHR 0x80, CHR 0x87],
      [CHR 0xE2, CHR 0x80, CHR 0x88], [CHR 0xE2, CHR 0x80, CHR 0x89],
      [CHR 0xE2, CHR 0x80, CHR 0x8A], [CHR 0xE2, CHR 0x80, CHR 0xA8],
      [CHR 0xE2, CHR 0x80, CHR 0xA9], [CHR 0xE2, CHR 0x80, CHR 0xAF],
      [CHR 0xE2, CHR 0x81, CHR 0x9F], [CHR 0xE3, CHR 0x80, CHR 0x80]]"

definition isspace :: "string \<Rightarrow> bool" where
  "isspace c = (c \<in> set whitespace)"

text \<open>\<^verbatim>\<open>s.strip()\<close>, and \<^verbatim>\<open>s.strip(chars)\<close> for ASCII \<^verbatim>\<open>chars\<close>.\<close>

definition strip :: "string \<Rightarrow> string" where
  "strip s = concat (rev (dropWhile isspace (rev (dropWhile isspace (chars s)))))"

definition strip_with :: "(char \<Rightarrow> bool) \<Rightarrow> string \<Rightarrow> string" where
  "strip_with p s = rev (dropWhile p (rev (dropWhile p s)))"

text \<open>\<^verbatim>\<open>s.replace('\n', '; ')\<close>.\<close>

definition replace_newlines :: "string \<Rightarrow> string" where
  "replace_newlines s = concat (map (\<lambda>c. if c = CHR 0x0A then ''; '' else [c]) s)"

text \<open>
  \<^verbatim>\<open>subprocess\<close> converts the argument vector in order: an argument that is not a string
  raises \<^verbatim>\<open>TypeError\<close>, a string with a NUL byte \<^verbatim>\<open>ValueError\<close>.
\<close>

fun subprocess_args :: "pyval list \<Rightarrow> exn + string list" where
  "subprocess_args [] = Inr []"
| "subprocess_args (PStr s # as) =
     (if CHR 0x00 \<in> set s then Inl ValueError
      else case subprocess_args as of Inl e \<Rightarrow> Inl e | Inr ss \<Rightarrow> Inr (s # ss))"
| "subprocess_args (_ # as) = Inl TypeError"

definition quoted :: "string \<Rightarrow> string" where
  "quoted s = CHR 0x22 # s @ [CHR 0x22]"

definition command_failed :: "string list \<Rightarrow> int \<Rightarrow> string \<Rightarrow> string" where
  "command_failed cmds returncode output =
     ''command '' @ quoted (join '' '' cmds) @ '' failed with exit code ''
       @ quoted (str_int returncode) @ '' and output: ''
       @ quoted (strip_with (\<lambda>c. c \<in> set ''; '') (replace_newlines output))"

text \<open>
  A \<^verbatim>\<open>Repo\<close> object is identified by its \<^verbatim>\<open>_url\<close>, written \<open>repo\<close>.
  \<^verbatim>\<open>Repo.git\<close>: runs \<^verbatim>\<open>git\<close> with the given arguments for the repository \<open>repo\<close>; exit
  status 0 returns the output, any other raises \<^verbatim>\<open>GitError\<close>.
\<close>

definition git :: "world \<Rightarrow> pyval \<Rightarrow> pyval list \<Rightarrow> event list \<Rightarrow> (exn + string) \<times> event list" where
  "git w repo cmds tr =
     (case subprocess_args (PStr ''git'' # cmds) of
        Inl e \<Rightarrow> (Inl e, tr)
      | Inr argv \<Rightarrow>
          (case run_git w tr repo argv of
             (returncode, output) \<Rightarrow>
               (if returncode = 0 then Inr output
                else Inl (GitError (command_failed argv returncode output)),
                tr @ [Exec repo argv])))"

text \<open>\<^verbatim>\<open>Repo.__init__\<close>: the shallow clone of all branches.\<close>

definition Repo :: "world \<Rightarrow> pyval \<Rightarrow> event list \<Rightarrow> (exn + pyval) \<times> event list" where
  "Repo w repo tr =
     (case git w repo [PStr ''clone'', PStr ''--depth=1'', PStr ''--quiet'',
                      PStr ''--no-single-branch'', repo, PStr ''git''] tr of
        (Inl e, tr') \<Rightarrow> (Inl e, tr')
      | (Inr _, tr') \<Rightarrow> (Inr repo, tr'))"

definition not_found :: "string \<Rightarrow> pyval \<Rightarrow> pyval \<Rightarrow> string" where
  "not_found kind n repo =
     kind @ '' '' @ py_str n @ '' not found for repository '' @ py_str repo"

definition validate_branch :: "world \<Rightarrow> pyval \<Rightarrow> pyval \<Rightarrow> event list \<Rightarrow> (exn + unit) \<times> event list" where
  "validate_branch w repo branch tr =
     (case git w repo [PStr ''branch'', PStr ''--list'', PStr ''--all'',
                      PStr (''origin/'' @ py_str branch)] tr of
        (Inl e, tr') \<Rightarrow> (Inl e, tr')
      | (Inr output, tr') \<Rightarrow>
          (if output = [] then Inl (GitError (not_found ''Branch'' branch repo)) else Inr (), tr'))"

definition validate_tag :: "world \<Rightarrow> pyval \<Rightarrow> pyval \<Rightarrow> event list \<Rightarrow> (exn + unit) \<times> event list" where
  "validate_tag w repo tag tr =
     (case git w repo [PStr ''tag'', PStr ''--list'', tag] tr of
        (Inl e, tr') \<Rightarrow> (Inl e, tr')
      | (Inr output, tr') \<Rightarrow>
          (if output = [] then Inl (GitError (not_found ''Tag'' tag repo)) else Inr (), tr'))"

definition validate_commit :: "world \<Rightarrow> pyval \<Rightarrow> pyval \<Rightarrow> event list \<Rightarrow> (exn + unit) \<times> event list" where
  "validate_commit w repo commit tr =
     (case git w repo [PStr ''cat-file'', PStr ''-t'', commit] tr of
        (Inl e, tr') \<Rightarrow> (Inl e, tr')
      | (Inr output, tr') \<Rightarrow>
          (if strip output \<noteq> ''commit'' then Inl (GitError (not_found ''Commit'' commit repo))
           else Inr (), tr'))"

text \<open>\<^verbatim>\<open>s.split('\n')\<close>.\<close>

fun split_lines :: "string \<Rightarrow> string list" where
  "split_lines [] = [[]]"
| "split_lines (c # cs) =
     (if c = CHR 0x0A then [] # split_lines cs
      else case split_lines cs of [] \<Rightarrow> [[c]] | l # ls \<Rightarrow> (c # l) # ls)"

text \<open>
  \<^verbatim>\<open>re.compile(r'\s*remotes/origin/(?P<branch>[^\s]+$)').match(line)\<close>: after the leading
  white space the line reads \<^verbatim>\<open>remotes/origin/\<close> and then, to its end, one or more
  characters none of which is white space; they are the branch.
\<close>

definition re_branch :: "string \<Rightarrow> string option" where
  "re_branch line =
     (let rest = dropWhile isspace (chars line) in
      if concat (take 15 rest) = ''remotes/origin/'' \<and> drop 15 rest \<noteq> []
         \<and> \<not> list_ex isspace (drop 15 rest)
      then Some (concat (drop 15 rest)) else None)"

text \<open>\<^verbatim>\<open>Repo.branches\<close>: the lines of the branch listing that match.\<close>

definition branches :: "world \<Rightarrow> pyval \<Rightarrow> event list \<Rightarrow> (exn + string list) \<times> event list" where
  "branches w repo tr =
     (case git w repo [PStr ''branch'', PStr ''--list'', PStr ''--all''] tr of
        (Inl e, tr') \<Rightarrow> (Inl e, tr')
      | (Inr output, tr') \<Rightarrow> (Inr (List.map_filter re_branch (split_lines output)), tr'))"

section \<open>statetree.py\<close>

subsection \<open>References and states\<close>

text \<open>The classes \<^verbatim>\<open>GitBranch\<close>, \<^verbatim>\<open>GitCommit\<close> and \<^verbatim>\<open>GitTag\<close>, each with its name.\<close>

datatype GitRef = GitBranch pyval | GitCommit pyval | GitTag pyval

fun reftype :: "GitRef \<Rightarrow> string" where
  "reftype (GitBranch _) = ''branch''"
| "reftype (GitCommit _) = ''commit''"
| "reftype (GitTag _) = ''tag''"

fun ref_name :: "GitRef \<Rightarrow> pyval" where
  "ref_name (GitBranch n) = n"
| "ref_name (GitCommit n) = n"
| "ref_name (GitTag n) = n"

text \<open>\<^verbatim>\<open>str.capitalize\<close> on ASCII text.\<close>

definition upper :: "char \<Rightarrow> char" where
  "upper c = (if CHR ''a'' \<le> c \<and> c \<le> CHR ''z'' then char_of (of_char c - (32 :: nat)) else c)"

definition lower :: "char \<Rightarrow> char" where
  "lower c = (if CHR ''A'' \<le> c \<and> c \<le> CHR ''Z'' then char_of (of_char c + (32 :: nat)) else c)"

fun capitalize :: "string \<Rightarrow> string" where
  "capitalize [] = []"
| "capitalize (c # cs) = upper c # map lower cs"

text \<open>\<^verbatim>\<open>GitRef.__str__\<close>.\<close>

definition GitRef_str :: "GitRef \<Rightarrow> string" where
  "GitRef_str r = capitalize (reftype r) @ '': '' @ py_str (ref_name r)"

record State =
  name :: pyval
  url :: pyval
  ref :: "GitRef option"

text \<open>\<^verbatim>\<open>State.__repr__\<close>, which is also \<^verbatim>\<open>str(state)\<close>.\<close>

definition State_repr :: "State \<Rightarrow> string" where
  "State_repr self =
     (let state = py_str (name self) @ '' ('' @ py_str (url self) @ '')'' in
      case ref self of
        None \<Rightarrow> state
      | Some r \<Rightarrow> state @ '' ['' @ GitRef_str r @ '']'')"

text \<open>\<^verbatim>\<open>State.__lt__\<close>.\<close>

definition State_lt :: "State \<Rightarrow> State \<Rightarrow> bool" where
  "State_lt self other = (State_repr other > State_repr self)"

text \<open>
  \<^verbatim>\<open>sorted(states)\<close>: Python's sort is stable and compares with \<^verbatim>\<open>__lt__\<close> only, so it is
  the stable sort by \<open>State_repr\<close>.
\<close>

definition sorted_states :: "State list \<Rightarrow> State list" where
  "sorted_states states = sort_key State_repr states"

subsection \<open>Dicts\<close>

text \<open>
  Keys of a dict are hashable: \<^verbatim>\<open>None\<close>, booleans, integers, strings. Python finds a key by
  \<^verbatim>\<open>==\<close>, under which \<^verbatim>\<open>True == 1\<close> and \<^verbatim>\<open>False == 0\<close>.
\<close>

fun num_of :: "pyval \<Rightarrow> int option" where
  "num_of (PBool b) = Some (if b then 1 else 0)"
| "num_of (PInt i) = Some i"
| "num_of _ = None"

definition key_eq :: "pyval \<Rightarrow> pyval \<Rightarrow> bool" where
  "key_eq a b =
     (case (num_of a, num_of b) of
        (Some i, Some j) \<Rightarrow> i = j
      | (None, None) \<Rightarrow> a = b
      | _ \<Rightarrow> False)"

type_synonym dict = "(pyval \<times> pyval) list"

text \<open>\<^verbatim>\<open>k in d\<close>, \<^verbatim>\<open>d.get(k)\<close>, \<^verbatim>\<open>d.pop(k)\<close> (\<open>None\<close> for \<^verbatim>\<open>KeyError\<close>) and \<^verbatim>\<open>d[k] = v\<close>.\<close>

fun dict_get :: "dict \<Rightarrow> pyval \<Rightarrow> pyval option" where
  "dict_get [] k = None"
| "dict_get ((k', v) # d) k = (if key_eq k' k then Some v else dict_get d k)"

definition dict_in :: "pyval \<Rightarrow> dict \<Rightarrow> bool" where
  "dict_in k d = (dict_get d k \<noteq> None)"

fun dict_pop :: "dict \<Rightarrow> pyval \<Rightarrow> (pyval \<times> dict) option" where
  "dict_pop [] k = None"
| "dict_pop ((k', v) # d) k =
     (if key_eq k' k then Some (v, d)
      else case dict_pop d k of None \<Rightarrow> None | Some (x, d') \<Rightarrow> Some (x, (k', v) # d'))"

fun dict_set :: "dict \<Rightarrow> pyval \<Rightarrow> pyval \<Rightarrow> dict" where
  "dict_set [] k v = [(k, v)]"
| "dict_set ((k', v') # d) k v =
     (if key_eq k' k then (k', v) # d else (k', v') # dict_set d k v)"

text \<open>\<^verbatim>\<open>d.update(other)\<close>.\<close>

definition dict_update :: "dict \<Rightarrow> dict \<Rightarrow> dict" where
  "dict_update d other = foldl (\<lambda>d kv. dict_set d (fst kv) (snd kv)) d other"

subsection \<open>\<^verbatim>\<open>State.as_dict\<close>\<close>

text \<open>The table \<^verbatim>\<open>validators[self.ref.reftype]\<close> applied to \<^verbatim>\<open>self.ref.name\<close>.\<close>

fun validators :: "world \<Rightarrow> pyval \<Rightarrow> GitRef \<Rightarrow> event list \<Rightarrow> (exn + unit) \<times> event list" where
  "validators w repo (GitBranch n) tr = validate_branch w repo n tr"
| "validators w repo (GitCommit n) tr = validate_commit w repo n tr"
| "validators w repo (GitTag n) tr = validate_tag w repo n tr"

text \<open>
  The \<^verbatim>\<open>with Repo(url=self.url)\<close> block of \<^verbatim>\<open>as_dict\<close>: the working copy is cloned first;
  inside, \<^verbatim>\<open>self.ref.reftype\<close> raises \<^verbatim>\<open>AttributeError\<close> when \<^verbatim>\<open>self.ref\<close> is \<^verbatim>\<open>None\<close>,
  which the \<^verbatim>\<open>except AttributeError: pass\<close> swallows.
\<close>

definition verify_ref :: "world \<Rightarrow> State \<Rightarrow> event list \<Rightarrow> (exn + unit) \<times> event list" where
  "verify_ref w self tr =
     (case Repo w (url self) tr of
        (Inl e, tr') \<Rightarrow> (Inl e, tr')
      | (Inr state_repo, tr') \<Rightarrow>
          (case ref self of
             None \<Rightarrow> (Inr (), tr')
           | Some r \<Rightarrow> validators w state_repo r tr'))"

definition as_dict :: "world \<Rightarrow> bool \<Rightarrow> State \<Rightarrow> event list \<Rightarrow> (exn + dict) \<times> event list" where
  "as_dict w verify_refs self tr =
     (case (if verify_refs then verify_ref w self tr else (Inr (), tr)) of
        (Inl e, tr') \<Rightarrow> (Inl e, tr')
      | (Inr _, tr') \<Rightarrow>
          (Inr (case ref self of
                  Some r \<Rightarrow> [(name self, PDict [(PStr ''url'', url self),
                                                  (PStr (reftype r), ref_name r)])]
                | None \<Rightarrow> [(name self, url self)]),
           tr'))"

subsection \<open>\<^verbatim>\<open>StateTreeRepo._verify_state\<close>\<close>

text \<open>\<^verbatim>\<open>len(v)\<close>; \<^verbatim>\<open>sep.join(xs)\<close>, which wants strings; iteration over a value.\<close>

fun py_len :: "pyval \<Rightarrow> exn + nat" where
  "py_len (PStr s) = Inr (length (chars s))"
| "py_len (PList xs) = Inr (length xs)"
| "py_len (PDict kvs) = Inr (length kvs)"
| "py_len _ = Inl TypeError"

fun str_list :: "pyval list \<Rightarrow> exn + string list" where
  "str_list [] = Inr []"
| "str_list (PStr s # xs) = (case str_list xs of Inl e \<Rightarrow> Inl e | Inr ss \<Rightarrow> Inr (s # ss))"
| "str_list (_ # xs) = Inl TypeError"

definition py_join :: "string \<Rightarrow> pyval list \<Rightarrow> exn + string" where
  "py_join sep xs = (case str_list xs of Inl e \<Rightarrow> Inl e | Inr ss \<Rightarrow> Inr (join sep ss))"

fun py_iter :: "pyval \<Rightarrow> exn + pyval list" where
  "py_iter (PList xs) = Inr xs"
| "py_iter (PDict kvs) = Inr (map fst kvs)"
| "py_iter (PStr s) = Inr (map PStr (chars s))"
| "py_iter _ = Inl TypeError"

text \<open>
  The validator works on its argument in place: \<^verbatim>\<open>state.popitem()\<close> takes the pair out of
  the entry and \<^verbatim>\<open>state_options.pop('url')\<close> takes the URL out of the options. The result
  of a call is therefore the State or the exception (\<open>outcome\<close>), what the entry object
  holds when the call ends (\<open>entry\<close>), what the options object holds then, once it has
  been taken out of the entry (\<open>options\<close>), and the lines printed (\<open>stdout\<close>).
\<close>

record verified =
  outcome :: "exn + State"
  entry :: pyval
  options :: "pyval option"
  stdout :: "string list"

definition state_options_keys :: "pyval list" where
  "state_options_keys = [PStr ''branch'', PStr ''commit'', PStr ''tag'', PStr ''url'']"

text \<open>
  The part of \<^verbatim>\<open>_verify_state\<close> after \<^verbatim>\<open>state.popitem()\<close>. It gives the outcome and the
  final content of the options object. The set \<^verbatim>\<open>invalid_keys\<close> is printed in the order of
  the options' keys (Python leaves the order of a set open).
\<close>

definition verify_options :: "pyval \<Rightarrow> pyval \<Rightarrow> (exn + State) \<times> pyval" where
  "verify_options state_name state_options =
     (case state_options of
        PStr s \<Rightarrow> (Inr \<lparr>name = state_name, url = state_options, ref = None\<rparr>, state_options)
      | PDict opts \<Rightarrow>
          (let invalid_keys = filter (\<lambda>k. \<not> list_ex (key_eq k) state_options_keys) (map fst opts) in
           if invalid_keys \<noteq> [] then
             (Inl (StateParseError (''State '' @ py_str state_name @ '' invalid options: {''
                     @ join '', '' (map py_repr invalid_keys) @ ''}'')), state_options)
           else case dict_pop opts (PStr ''url'') of
             None \<Rightarrow>
               (Inl (StateParseError (''State '' @ py_str state_name
                       @ '' missing mandatory option '' @ quoted ''url'')), state_options)
           | Some (u, opts') \<Rightarrow>
               if length opts' > 1 then
                 (Inl (case py_join (quoted '', '') (map fst opts') of
                         Inl e \<Rightarrow> e
                       | Inr ks \<Rightarrow> StateParseError (''State '' @ py_str state_name
                           @ '' more than one of '' @ quoted ''commit'' @ '', '' @ quoted ''tag''
                           @ '' or '' @ quoted ''branch'' @ '' specified: '' @ quoted ks)),
                  PDict opts')
               else
                 (Inr \<lparr>name = state_name, url = u,
                       ref = (if dict_in (PStr ''branch'') opts'
                                then Some (GitBranch (case dict_get opts' (PStr ''branch'') of Some v \<Rightarrow> v | None \<Rightarrow> PNone))
                              else if dict_in (PStr ''commit'') opts'
                                then Some (GitCommit (case dict_get opts' (PStr ''commit'') of Some v \<Rightarrow> v | None \<Rightarrow> PNone))
                              else if dict_in (PStr ''tag'') opts'
                                then Some (GitTag (case dict_get opts' (PStr ''tag'') of Some v \<Rightarrow> v | None \<Rightarrow> PNone))
                              else None)\<rparr>,
                  PDict opts'))
      | _ \<Rightarrow>
          (Inl (StateParseError (''State '' @ py_str state_name
                  @ '' options should be passed as str or dict, not '' @ type_name state_options)),
           state_options))"

text \<open>
  \<^verbatim>\<open>_verify_state\<close>. \<^verbatim>\<open>len\<close> raises \<^verbatim>\<open>TypeError\<close> on a value without length;
  \<^verbatim>\<open>state.keys()\<close> and \<^verbatim>\<open>state.popitem()\<close> raise \<^verbatim>\<open>AttributeError\<close> on a string or a list;
  \<^verbatim>\<open>','.join(state.keys())\<close> raises \<^verbatim>\<open>TypeError\<close> on a key that is not a string.
  \<^verbatim>\<open>popitem\<close> takes the pair inserted last.
\<close>

definition verify_state :: "pyval \<Rightarrow> verified" where
  "verify_state state =
     (let out = [py_str state] in
      case py_len state of
        Inl e \<Rightarrow> \<lparr>outcome = Inl e, entry = state, options = None, stdout = out\<rparr>
      | Inr n \<Rightarrow>
          if n \<noteq> 1 then
            \<lparr>outcome = Inl (case state of
                 PDict kvs \<Rightarrow>
                   (case py_join '','' (map fst kvs) of
                      Inl e \<Rightarrow> e
                    | Inr ks \<Rightarrow> StateParseError
                        (''State should have options grouped under a single key, not '' @ ks))
               | _ \<Rightarrow> AttributeError),
             entry = state, options = None, stdout = out\<rparr>
          else case state of
            PDict kvs \<Rightarrow>
              (case verify_options (fst (last kvs)) (snd (last kvs)) of
                 (r, state_options) \<Rightarrow>
                   \<lparr>outcome = r, entry = PDict (butlast kvs),
                    options = Some state_options, stdout = out\<rparr>)
          | _ \<Rightarrow> \<lparr>outcome = Inl AttributeError, entry = state, options = None, stdout = out\<rparr>)"

subsection \<open>\<^verbatim>\<open>StateTreeRepo._scan\<close>\<close>

text \<open>
  \<^verbatim>\<open>self._environments\<close> is a \<^verbatim>\<open>defaultdict(list)\<close>: reading a missing key stores and
  returns the empty list.
\<close>

type_synonym environments = "string \<rightharpoonup> State list"

definition env_lookup :: "environments \<Rightarrow> string \<Rightarrow> State list \<times> environments" where
  "env_lookup envs k =
     (case envs k of None \<Rightarrow> ([], envs(k \<mapsto> [])) | Some states \<Rightarrow> (states, envs))"

text \<open>
  The value a place holds at present: its own value, or the dict of its number with the
  values its places hold at present. The bound keeps the reading inside the smaller
  numbers.
\<close>

function read :: "store \<Rightarrow> nat \<Rightarrow> cell \<Rightarrow> pyval" where
  "read h b (Val v) = v"
| "read h b (Obj a) =
     (if a < b then PDict (map (\<lambda>kc. (fst kc, read h a (snd kc))) (fetch h a)) else PDict [])"
  by pat_completeness auto
termination
  by (relation "measure (\<lambda>(h, b, c). b)") auto

definition value_of :: "store \<Rightarrow> cell \<Rightarrow> pyval" where
  "value_of h c = (case c of Val v \<Rightarrow> v | Obj a \<Rightarrow> read h (Suc a) c)"

text \<open>
  What a validation that returned a State has done to the dicts it was given:
  \<^verbatim>\<open>state.popitem()\<close> has taken the one pair out of the entry, and, where the options were
  a dict, \<^verbatim>\<open>state_options.pop('url')\<close> has taken the URL out of them. Only shared dicts
  are seen again. A validation that raised ends the scan. The State returned keeps its
  values as they were when it was validated.
\<close>

fun pop_url :: "(pyval \<times> cell) list \<Rightarrow> (pyval \<times> cell) list" where
  "pop_url [] = []"
| "pop_url (kc # d) = (if key_eq (fst kc) (PStr ''url'') then d else kc # pop_url d)"

definition consumed :: "store \<Rightarrow> cell \<Rightarrow> store" where
  "consumed h c =
     (case c of
        Val v \<Rightarrow> h
      | Obj a \<Rightarrow>
          (case fetch h a of
             [] \<Rightarrow> h
           | kc # d \<Rightarrow>
               (let h1 = (a, butlast (fetch h a)) # h in
                case snd (last (fetch h a)) of
                  Val v \<Rightarrow> h1
                | Obj b \<Rightarrow> (b, pop_url (fetch h1 b)) # h1)))"

text \<open>
  \<^verbatim>\<open>for state in yaml.safe_load(states)\<close> iterates over what was decoded: the entries of
  a sequence, the keys of a mapping, the characters of a string; anything else raises
  \<^verbatim>\<open>TypeError\<close>.
\<close>

fun entries :: "document \<Rightarrow> exn + cell list \<times> store" where
  "entries (Tree v) =
     (case py_iter v of Inl e \<Rightarrow> Inl e | Inr xs \<Rightarrow> Inr (map Val xs, []))"
| "entries (Aliased cs h) = Inr (cs, h)"

text \<open>
  The loop \<^verbatim>\<open>for state in yaml.safe_load(states)\<close>: each entry is validated as it is
  when its turn comes and appended to the branch's list; an exception of the validator
  ends the scan.
\<close>

fun scan_entries ::
  "cell list \<Rightarrow> string \<Rightarrow> environments \<Rightarrow> store \<Rightarrow> event list
     \<Rightarrow> (exn + environments) \<times> event list" where
  "scan_entries [] branch envs h tr = (Inr envs, tr)"
| "scan_entries (state # rest) branch envs h tr =
     (case env_lookup envs branch of
        (states, envs1) \<Rightarrow>
          (let v = verify_state (value_of h state); tr1 = tr @ map Print (stdout v) in
           case outcome v of
             Inl e \<Rightarrow> (Inl e, tr1)
           | Inr s \<Rightarrow>
               scan_entries rest branch (envs1(branch \<mapsto> states @ [s])) (consumed h state) tr1))"

text \<open>
  The loop \<^verbatim>\<open>for branch in self.branches\<close>: checkout, read and decode the manifest,
  validate its entries. \<^verbatim>\<open>FileNotFoundError\<close> goes on with the next branch; a
  \<^verbatim>\<open>YAMLError\<close> is raised again as \<^verbatim>\<open>StateParseError\<close>; no other exception is caught.
\<close>

fun scan_branches ::
  "world \<Rightarrow> pyval \<Rightarrow> string list \<Rightarrow> environments \<Rightarrow> event list
     \<Rightarrow> (exn + environments) \<times> event list" where
  "scan_branches w repo [] envs tr = (Inr envs, tr)"
| "scan_branches w repo (branch # rest) envs tr =
     (case git w repo [PStr ''checkout'', PStr branch] tr of
        (Inl e, tr1) \<Rightarrow> (Inl e, tr1)
      | (Inr _, tr1) \<Rightarrow>
          (case read_manifest w tr1 of
             FileNotFoundError \<Rightarrow> scan_branches w repo rest envs tr1
           | YAMLError exc \<Rightarrow>
               (Inl (StateParseError (''Could no parse states.yaml for branch '' @ branch
                       @ '': '' @ exc)), tr1)
           | Raised e \<Rightarrow> (Inl e, tr1)
           | Loaded document \<Rightarrow>
               (case entries document of
                  Inl e \<Rightarrow> (Inl e, tr1)
                | Inr (cells, h) \<Rightarrow>
                    (case scan_entries cells branch envs h tr1 of
                       (Inl e, tr2) \<Rightarrow> (Inl e, tr2)
                     | (Inr envs', tr2) \<Rightarrow> scan_branches w repo rest envs' tr2))))"

definition scan :: "world \<Rightarrow> pyval \<Rightarrow> environments \<Rightarrow> event list \<Rightarrow> (exn + environments) \<times> event list" where
  "scan w repo envs tr =
     (case branches w repo tr of
        (Inl e, tr') \<Rightarrow> (Inl e, tr')
      | (Inr bs, tr') \<Rightarrow> scan_branches w repo bs envs tr')"

text \<open>
  \<^verbatim>\<open>StateTreeRepo.__init__\<close>: the empty \<^verbatim>\<open>defaultdict\<close>, the clone, the scan. The caller
  gets the object, here its environments, only when none of them raised.
\<close>

definition StateTreeRepo :: "world \<Rightarrow> pyval \<Rightarrow> event list \<Rightarrow> (exn + environments) \<times> event list" where
  "StateTreeRepo w root tr =
     (case Repo w root tr of
        (Inl e, tr') \<Rightarrow> (Inl e, tr')
      | (Inr repo, tr') \<Rightarrow> scan w repo Map.empty tr')"

subsection \<open>\<^verbatim>\<open>yaml.safe_dump\<close> and \<^verbatim>\<open>StateTreeRepo.yaml\<close>\<close>

text \<open>
  The text \<^verbatim>\<open>yaml.safe_dump(data, default_flow_style=False)\<close> returns is block-style YAML;
  it is represented by the tree of nodes it writes, mappings with their entries in the
  order written. PyYAML's representer sorts the items of a dict (\<^verbatim>\<open>sort_keys\<close> is true
  unless the caller passes otherwise, and \<^verbatim>\<open>StateTreeRepo.yaml\<close> does not):
  \<^verbatim>\<open>try: mapping = sorted(mapping) except TypeError: pass\<close>. Keys that are all strings, or
  all numbers, compare; any other mix of two or more keys raises the \<^verbatim>\<open>TypeError\<close> and
  the items stay in insertion order.
\<close>

datatype ynode = YScalar pyval | YSeq "ynode list" | YMap "(ynode \<times> ynode) list"

fun is_str :: "pyval \<Rightarrow> bool" where
  "is_str (PStr _) = True"
| "is_str _ = False"

fun str_of :: "pyval \<Rightarrow> string" where
  "str_of (PStr s) = s"
| "str_of _ = []"

definition int_of :: "pyval \<Rightarrow> int" where
  "int_of k = (case num_of k of Some i \<Rightarrow> i | None \<Rightarrow> 0)"

definition sorted_items :: "dict \<Rightarrow> dict" where
  "sorted_items items =
     (if list_all is_str (map fst items) then sort_key (\<lambda>kv. str_of (fst kv)) items
      else if list_all (\<lambda>k. num_of k \<noteq> None) (map fst items)
        then sort_key (\<lambda>kv. int_of (fst kv)) items
      else items)"

function represent :: "pyval \<Rightarrow> ynode" where
  "represent (PList xs) = YSeq (map represent xs)"
| "represent (PDict items) =
     YMap (map (\<lambda>kv. (represent (fst kv), represent (snd kv))) (sorted_items items))"
| "represent PNone = YScalar PNone"
| "represent (PBool b) = YScalar (PBool b)"
| "represent (PInt i) = YScalar (PInt i)"
| "represent (PStr s) = YScalar (PStr s)"
  by pat_completeness auto
termination
proof (relation "measure size")
  show "wf (measure (size :: pyval \<Rightarrow> nat))" by simp
next
  fix xs :: "pyval list" and x
  assume "x \<in> set xs"
  then have "size x < Suc (size_list size xs)"
    by (induction xs) auto
  then show "(x, PList xs) \<in> measure size" by simp
next
  fix items :: dict and kv
  assume "kv \<in> set (sorted_items items)"
  then have "kv \<in> set items" by (simp add: sorted_items_def split: if_splits)
  then have "size_prod size size kv < Suc (size_list (size_prod size size) items)"
    by (induction items) auto
  then show "(fst kv, PDict items) \<in> measure size"
    by (cases kv) simp
next
  fix items :: dict and kv
  assume "kv \<in> set (sorted_items items)"
  then have "kv \<in> set items" by (simp add: sorted_items_def split: if_splits)
  then have "size_prod size size kv < Suc (size_list (size_prod size size) items)"
    by (induction items) auto
  then show "(snd kv, PDict items) \<in> measure size"
    by (cases kv) simp
qed

definition safe_dump :: "pyval \<Rightarrow> ynode" where
  "safe_dump data = represent data"

text \<open>
  \<^verbatim>\<open>yaml.safe_load\<close> on a document given by its nodes: a mapping node becomes a dict
  filled entry by entry.
\<close>

fun construct :: "ynode \<Rightarrow> pyval" where
  "construct (YScalar v) = v"
| "construct (YSeq ns) = PList (map construct ns)"
| "construct (YMap kvs) =
     PDict (foldl (\<lambda>d kv. dict_set d (construct (fst kv)) (construct (snd kv))) [] kvs)"

definition safe_load :: "ynode \<Rightarrow> pyval" where
  "safe_load document = construct document"

text \<open>
  The loop of \<^verbatim>\<open>StateTreeRepo.yaml\<close>: \<^verbatim>\<open>_yaml.update(state.as_dict())\<close> for each state of
  the sorted list, with references verified.
\<close>

fun yaml_update :: "world \<Rightarrow> State list \<Rightarrow> dict \<Rightarrow> event list \<Rightarrow> (exn + dict) \<times> event list" where
  "yaml_update w [] d tr = (Inr d, tr)"
| "yaml_update w (state # rest) d tr =
     (case as_dict w True state tr of
        (Inl e, tr') \<Rightarrow> (Inl e, tr')
      | (Inr x, tr') \<Rightarrow> yaml_update w rest (dict_update d x) tr')"

text \<open>
  \<^verbatim>\<open>StateTreeRepo.yaml\<close>. It gives the document or the exception, the environments (the
  \<^verbatim>\<open>defaultdict\<close> stores an empty list under a name it did not have) and the trace.
\<close>

definition yaml ::
  "world \<Rightarrow> environments \<Rightarrow> string \<Rightarrow> event list \<Rightarrow> (exn + ynode) \<times> environments \<times> event list" where
  "yaml w envs environment tr =
     (case env_lookup envs environment of
        (states, envs') \<Rightarrow>
          (case yaml_update w (sorted_states states) [] tr of
             (Inl e, tr') \<Rightarrow> (Inl e, envs', tr')
           | (Inr d, tr') \<Rightarrow> (Inr (safe_dump (PDict d)), envs', tr')))"

text \<open>The entry of a mapping node under a scalar key, and the keys of a mapping node.\<close>

fun node_get :: "ynode \<Rightarrow> pyval \<Rightarrow> ynode option" where
  "node_get (YMap kvs) k = map_of kvs (YScalar k)"
| "node_get _ k = None"

fun node_keys :: "ynode \<Rightarrow> ynode list" where
  "node_keys (YMap kvs) = map fst kvs"
| "node_keys _ = []"

text \<open>
  What \<^verbatim>\<open>as_dict\<close> stores under the name of a state: the bare URL, or the mapping of the
  URL and the reference.
\<close>

definition state_value :: "State \<Rightarrow> pyval" where
  "state_value self =
     (case ref self of
        Some r \<Rightarrow> PDict [(PStr ''url'', url self), (PStr (reftype r), ref_name r)]
      | None \<Rightarrow> url self)"

text \<open>The states of a list that have a given name, in the order of the list.\<close>

definition named :: "pyval \<Rightarrow> State list \<Rightarrow> State list" where
  "named n states = filter (\<lambda>t. name t = n) states"

text \<open>
  A state as the data model of the specification has it: name, URL and reference name
  are strings.
\<close>

definition text_State :: "State \<Rightarrow> bool" where
  "text_State self =
     (is_str (name self) \<and> is_str (url self)
      \<and> (case ref self of None \<Rightarrow> True | Some r \<Rightarrow> is_str (ref_name r)))"

text \<open>
  Reading a document back: decode it, take the entry under a name and validate the
  one-key mapping of that name and entry.
\<close>

definition reread :: "ynode \<Rightarrow> pyval \<Rightarrow> (exn + State) option" where
  "reread document n =
     (case safe_load document of
        PDict d \<Rightarrow>
          (case dict_get d n of
             Some v \<Rightarrow> Some (outcome (verify_state (PDict [(n, v)])))
           | None \<Rightarrow> None)
      | _ \<Rightarrow> None)"

section \<open>Worlds to run the definitions in\<close>

text \<open>
  Every git process succeeds and prints nothing; every git process succeeds and prints
  \<^verbatim>\<open>commit\<close>; every git process fails.
\<close>

definition silent_world :: world where
  "silent_world = \<lparr>run_git = (\<lambda>tr repo argv. (0, [])), read_manifest = (\<lambda>tr. FileNotFoundError)\<rparr>"

definition obliging_world :: world where
  "obliging_world =
     \<lparr>run_git = (\<lambda>tr repo argv. (0, ''commit'' @ [CHR 0x0A])),
      read_manifest = (\<lambda>tr. FileNotFoundError)\<rparr>"

definition offline_world :: world where
  "offline_world =
     \<lparr>run_git = (\<lambda>tr repo argv. (128, ''fatal: not a git repository'' @ [CHR 0x0A])),
      read_manifest = (\<lambda>tr. FileNotFoundError)\<rparr>"

text \<open>
  A root repository with the remote branches \<^verbatim>\<open>docs\<close> and \<^verbatim>\<open>base\<close>, in that order. What
  the manifest read gives depends on the branch checked out last.
\<close>

definition checked_out :: "event list \<Rightarrow> string" where
  "checked_out tr =
     (case rev tr of
        Exec repo [g, c, b] # earlier \<Rightarrow> if c = ''checkout'' then b else []
      | _ \<Rightarrow> [])"

definition tree_world :: "(string \<Rightarrow> manifest) \<Rightarrow> world" where
  "tree_world manifests =
     \<lparr>run_git = (\<lambda>tr repo argv.
         if argv = [''git'', ''branch'', ''--list'', ''--all'']
         then (0, ''* base'' @ [CHR 0x0A] @ ''  remotes/origin/HEAD -> origin/base'' @ [CHR 0x0A]
                  @ ''  remotes/origin/docs'' @ [CHR 0x0A] @ ''  remotes/origin/base'' @ [CHR 0x0A])
         else (0, [])),
      read_manifest = (\<lambda>tr. manifests (checked_out tr))\<rparr>"

definition base_manifest :: pyval where
  "base_manifest =
     PList [PDict [(PStr ''api'', PStr ''https://example/api.git'')],
            PDict [(PStr ''db'', PDict [(PStr ''url'', PStr ''https://example/db.git''),
                                        (PStr ''tag'', PStr ''v1.0'')])]]"

definition good_tree :: world where
  "good_tree =
     tree_world (\<lambda>b. if b = ''base'' then Loaded (Tree base_manifest) else FileNotFoundError)"

definition broken_tree :: world where
  "broken_tree = tree_world (\<lambda>b. if b = ''base'' then YAMLError ''mapping values are not allowed here''
                                  else FileNotFoundError)"

definition misdated_tree :: world where
  "misdated_tree = tree_world (\<lambda>b. if b = ''base'' then Raised ValueError else FileNotFoundError)"

text \<open>
  States to run the export on: the two of the specification's scenario, and two states
  of one name whose renderings coincide.
\<close>

definition api :: State where
  "api = \<lparr>name = PStr ''api'', url = PStr ''https://example/api.git'', ref = None\<rparr>"

definition db :: State where
  "db = \<lparr>name = PStr ''db'', url = PStr ''https://example/db.git'',
         ref = Some (GitTag (PStr ''v1.0''))\<rparr>"

definition web_a :: State where
  "web_a = \<lparr>name = PStr ''web'', url = PStr ''https://x/a'',
            ref = Some (GitTag (PStr ''v1) [Tag: v2''))\<rparr>"

definition web_b :: State where
  "web_b = \<lparr>name = PStr ''web'', url = PStr ''https://x/a) [Tag: v1'',
            ref = Some (GitTag (PStr ''v2''))\<rparr>"

text \<open>Two entries of one name, \<^verbatim>\<open>web\<close>, in the order of their manifest.\<close>

definition web_first :: State where
  "web_first = \<lparr>name = PStr ''web'', url = PStr ''https://x/z.git'', ref = None\<rparr>"

definition web_second :: State where
  "web_second = \<lparr>name = PStr ''web'', url = PStr ''https://x/a.git'', ref = None\<rparr>"

text \<open>
  A state whose name has the name \<^verbatim>\<open>db\<close> as a prefix: its rendering sorts before that of
  \<^verbatim>\<open>db\<close>, its name after.
\<close>

definition db_cache :: State where
  "db_cache = \<lparr>name = PStr ''db & cache'', url = PStr ''https://example/cache.git'', ref = None\<rparr>"

section \<open>Reference lookups (git.py)\<close>

text \<open>
  Claim C1, as the code has it. When the lookup command of \<^verbatim>\<open>validate_branch\<close>,
  \<^verbatim>\<open>validate_tag\<close> or \<^verbatim>\<open>validate_commit\<close> exits with status 0 and finds nothing (empty
  output; for a commit, output other than \<^verbatim>\<open>commit\<close>), the call raises \<^verbatim>\<open>GitError\<close> with
  the message \<^verbatim>\<open><Kind> <name> not found for repository <url>\<close>. A command that exits
  with another status raises \<^verbatim>\<open>GitError\<close> as well, with the command, the status and the
  output in the message: the two failures have one class and differ in their text.
\<close>

theorem absent_ref_raises_GitError:
  "(git w repo [PStr ''branch'', PStr ''--list'', PStr ''--all'', PStr (''origin/'' @ py_str n)] tr
      = (Inr [], tr')
    \<longrightarrow> validate_branch w repo n tr
      = (Inl (GitError (''Branch '' @ py_str n @ '' not found for repository '' @ py_str repo)), tr'))
   \<and> (git w repo [PStr ''tag'', PStr ''--list'', n] tr = (Inr [], tr')
    \<longrightarrow> validate_tag w repo n tr
      = (Inl (GitError (''Tag '' @ py_str n @ '' not found for repository '' @ py_str repo)), tr'))
   \<and> (git w repo [PStr ''cat-file'', PStr ''-t'', n] tr = (Inr listing, tr')
        \<and> strip listing \<noteq> ''commit''
    \<longrightarrow> validate_commit w repo n tr
      = (Inl (GitError (''Commit '' @ py_str n @ '' not found for repository '' @ py_str repo)), tr'))
   \<and> (subprocess_args (PStr ''git'' # cmds) = Inr argv \<and> run_git w tr repo argv = (rc, out)
        \<and> rc \<noteq> 0
    \<longrightarrow> fst (git w repo cmds tr) = Inl (GitError (command_failed argv rc out)))"
  by (auto simp: validate_branch_def validate_tag_def validate_commit_def not_found_def git_def
           split: prod.splits)

theorem absent_ref_raises_GitError_witness:
  "validate_branch silent_world (PStr ''https://x/y.git'') (PStr ''main'') []
     = (Inl (GitError ''Branch main not found for repository https://x/y.git''),
        [Exec (PStr ''https://x/y.git'') [''git'', ''branch'', ''--list'', ''--all'', ''origin/main'']])
   \<and> validate_tag silent_world (PStr ''https://x/y.git'') (PStr ''v9'') []
     = (Inl (GitError ''Tag v9 not found for repository https://x/y.git''),
        [Exec (PStr ''https://x/y.git'') [''git'', ''tag'', ''--list'', ''v9'']])
   \<and> validate_commit silent_world (PStr ''https://x/y.git'') (PStr ''0a1b2c3'') []
     = (Inl (GitError ''Commit 0a1b2c3 not found for repository https://x/y.git''),
        [Exec (PStr ''https://x/y.git'') [''git'', ''cat-file'', ''-t'', ''0a1b2c3'']])
   \<and> fst (git offline_world (PStr ''https://x/y.git'') [PStr ''tag'', PStr ''--list'', PStr ''v9''] [])
     = Inl (GitError (command_failed [''git'', ''tag'', ''--list'', ''v9''] 128
                        (''fatal: not a git repository'' @ [CHR 0x0A])))"
proof -
  let ?u = "PStr ''https://x/y.git''"
  have b: "git silent_world ?u
             [PStr ''branch'', PStr ''--list'', PStr ''--all'', PStr (''origin/'' @ py_str (PStr ''main''))] []
     = (Inr [], [Exec ?u [''git'', ''branch'', ''--list'', ''--all'', ''origin/main'']])"
    by (simp add: git_def silent_world_def)
  have t: "git silent_world ?u [PStr ''tag'', PStr ''--list'', PStr ''v9''] []
     = (Inr [], [Exec ?u [''git'', ''tag'', ''--list'', ''v9'']])"
    by (simp add: git_def silent_world_def)
  have c: "git silent_world ?u [PStr ''cat-file'', PStr ''-t'', PStr ''0a1b2c3''] []
     = (Inr [], [Exec ?u [''git'', ''cat-file'', ''-t'', ''0a1b2c3'']]) \<and> strip [] \<noteq> ''commit''"
    by (simp add: git_def silent_world_def strip_def)
  have f: "subprocess_args (PStr ''git'' # [PStr ''tag'', PStr ''--list'', PStr ''v9''])
       = Inr [''git'', ''tag'', ''--list'', ''v9'']
     \<and> run_git offline_world [] ?u [''git'', ''tag'', ''--list'', ''v9'']
       = (128, ''fatal: not a git repository'' @ [CHR 0x0A])
     \<and> (128 :: int) \<noteq> 0"
    by (simp add: offline_world_def)
  show ?thesis
    using absent_ref_raises_GitError [where w = silent_world and repo = ?u and n = "PStr ''main''"
          and tr = "[]" and listing = "[]"]
      absent_ref_raises_GitError [where w = silent_world and repo = ?u and n = "PStr ''v9''"
          and tr = "[]" and listing = "[]"]
      absent_ref_raises_GitError [where w = silent_world and repo = ?u and n = "PStr ''0a1b2c3''"
          and tr = "[]" and listing = "[]"]
      absent_ref_raises_GitError [where w = offline_world and repo = ?u and tr = "[]"
          and cmds = "[PStr ''tag'', PStr ''--list'', PStr ''v9'']"
          and argv = "[''git'', ''tag'', ''--list'', ''v9'']" and rc = 128
          and out = "''fatal: not a git repository'' @ [CHR 0x0A]"]
      b t c f
    by simp
qed

text \<open>
  The claim as worded asks for an error type of its own. In a repository where the tag
  listing succeeds and is empty, and in one where git fails, \<^verbatim>\<open>validate_tag\<close> raises
  exceptions of the same class.
\<close>

theorem absent_ref_same_class_as_failed_command:
  "fst (validate_tag silent_world (PStr ''https://x/y.git'') (PStr ''v9'') [])
     = Inl (GitError ''Tag v9 not found for repository https://x/y.git'')
   \<and> fst (validate_tag offline_world (PStr ''https://x/y.git'') (PStr ''v9'') [])
     = Inl (GitError (''command '' @ quoted ''git tag --list v9'' @ '' failed with exit code ''
          @ quoted ''128'' @ '' and output: '' @ quoted ''fatal: not a git repository''))
   \<and> map_sum class_of id (fst (validate_tag silent_world (PStr ''https://x/y.git'') (PStr ''v9'') []))
     = map_sum class_of id (fst (validate_tag offline_world (PStr ''https://x/y.git'') (PStr ''v9'') []))"
  by code_simp

section \<open>Serialising one state (\<^verbatim>\<open>State.as_dict\<close>)\<close>

lemma Repo_trace:
  "CHR 0x00 \<notin> set u \<Longrightarrow>
   snd (Repo w (PStr u) tr)
     = tr @ [Exec (PStr u) [''git'', ''clone'', ''--depth=1'', ''--quiet'', ''--no-single-branch'', u, ''git'']]"
  by (simp add: Repo_def git_def split: prod.splits)

text \<open>
  Claim C2, as the code has it. \<^verbatim>\<open>as_dict\<close> enters \<^verbatim>\<open>with Repo(url=self.url)\<close> before it
  looks at \<^verbatim>\<open>self.ref\<close>. For a State without reference no branch, tag or commit is looked
  up; with verification switched off nothing is run at all; with verification on, the
  working copy of the state's URL is cloned all the same, the clone is the only git
  process, and a clone that fails is the result of \<^verbatim>\<open>as_dict\<close>.
\<close>

theorem State_without_ref_is_cloned:
  "ref self = None \<longrightarrow>
     as_dict w False self tr = (Inr [(name self, url self)], tr)
   \<and> as_dict w True self tr
       = (case Repo w (url self) tr of
            (Inl e, tr') \<Rightarrow> (Inl e, tr')
          | (Inr state_repo, tr') \<Rightarrow> (Inr [(name self, url self)], tr'))
   \<and> (url self = PStr u \<and> CHR 0x00 \<notin> set u \<longrightarrow>
        snd (as_dict w True self tr)
          = tr @ [Exec (PStr u) [''git'', ''clone'', ''--depth=1'', ''--quiet'',
                                 ''--no-single-branch'', u, ''git'']])"
proof (intro impI)
  assume r: "ref self = None"
  have a: "as_dict w False self tr = (Inr [(name self, url self)], tr)"
    by (simp add: as_dict_def r)
  have b: "as_dict w True self tr
       = (case Repo w (url self) tr of
            (Inl e, tr') \<Rightarrow> (Inl e, tr')
          | (Inr state_repo, tr') \<Rightarrow> (Inr [(name self, url self)], tr'))"
    by (simp add: as_dict_def verify_ref_def r split: prod.splits sum.splits)
  have "snd (as_dict w True self tr) = snd (Repo w (url self) tr)"
    unfolding b by (simp split: prod.splits sum.splits)
  then have c: "url self = PStr u \<and> CHR 0x00 \<notin> set u \<longrightarrow>
        snd (as_dict w True self tr)
          = tr @ [Exec (PStr u) [''git'', ''clone'', ''--depth=1'', ''--quiet'',
                                 ''--no-single-branch'', u, ''git'']]"
    using Repo_trace [of u w tr] by simp
  from a b c show "as_dict w False self tr = (Inr [(name self, url self)], tr)
   \<and> as_dict w True self tr
       = (case Repo w (url self) tr of
            (Inl e, tr') \<Rightarrow> (Inl e, tr')
          | (Inr state_repo, tr') \<Rightarrow> (Inr [(name self, url self)], tr'))
   \<and> (url self = PStr u \<and> CHR 0x00 \<notin> set u \<longrightarrow>
        snd (as_dict w True self tr)
          = tr @ [Exec (PStr u) [''git'', ''clone'', ''--depth=1'', ''--quiet'',
                                 ''--no-single-branch'', u, ''git'']])"
    by blast
qed

theorem State_without_ref_is_cloned_witness:
  "ref \<lparr>name = PStr ''api'', url = PStr ''https://example/api.git'', ref = None\<rparr> = None
   \<and> as_dict obliging_world False \<lparr>name = PStr ''api'', url = PStr ''https://example/api.git'', ref = None\<rparr> []
       = (Inr [(PStr ''api'', PStr ''https://example/api.git'')], [])
   \<and> as_dict obliging_world True \<lparr>name = PStr ''api'', url = PStr ''https://example/api.git'', ref = None\<rparr> []
       = (Inr [(PStr ''api'', PStr ''https://example/api.git'')],
          [Exec (PStr ''https://example/api.git'')
             [''git'', ''clone'', ''--depth=1'', ''--quiet'', ''--no-single-branch'',
              ''https://example/api.git'', ''git'']])"
proof -
  let ?s = "\<lparr>name = PStr ''api'', url = PStr ''https://example/api.git'', ref = None\<rparr>"
  have r: "ref ?s = None" by simp
  have u: "url ?s = PStr ''https://example/api.git'' \<and> CHR 0x00 \<notin> set ''https://example/api.git''"
    by simp
  have c: "Repo obliging_world (url ?s) []
     = (Inr (PStr ''https://example/api.git''),
        [Exec (PStr ''https://example/api.git'')
             [''git'', ''clone'', ''--depth=1'', ''--quiet'', ''--no-single-branch'',
              ''https://example/api.git'', ''git'']])"
    by (simp add: Repo_def git_def obliging_world_def)
  show ?thesis
    using State_without_ref_is_cloned [of ?s obliging_world "[]" "''https://example/api.git''"] r u c
    by simp
qed

text \<open>
  The claim as worded says that no working copy is opened. For the state \<^verbatim>\<open>api\<close> without
  reference the trace holds the clone of its URL, and where git fails the export of that
  state fails.
\<close>

theorem State_without_ref_opens_working_copy:
  "snd (as_dict silent_world True \<lparr>name = PStr ''api'', url = PStr ''https://example/api.git'', ref = None\<rparr> [])
     = [Exec (PStr ''https://example/api.git'')
          [''git'', ''clone'', ''--depth=1'', ''--quiet'', ''--no-single-branch'',
           ''https://example/api.git'', ''git'']]
   \<and> fst (as_dict offline_world True \<lparr>name = PStr ''api'', url = PStr ''https://example/api.git'', ref = None\<rparr> [])
     = Inl (GitError (command_failed
          [''git'', ''clone'', ''--depth=1'', ''--quiet'', ''--no-single-branch'',
           ''https://example/api.git'', ''git''] 128 (''fatal: not a git repository'' @ [CHR 0x0A])))"
  by (simp add: as_dict_def verify_ref_def Repo_def git_def silent_world_def offline_world_def)

section \<open>Exporting an environment (\<^verbatim>\<open>StateTreeRepo.yaml\<close>)\<close>

text \<open>
  Claim C10. For an environment name that the environments do not have, \<^verbatim>\<open>yaml\<close> raises
  nothing and runs nothing: it returns the dump of the empty mapping, and the
  \<^verbatim>\<open>defaultdict\<close> now holds the name with an empty list.
\<close>

theorem yaml_unknown_environment:
  "envs environment = None \<longrightarrow>
     yaml w envs environment tr = (Inr (safe_dump (PDict [])), envs(environment \<mapsto> []), tr)
     \<and> safe_dump (PDict []) = YMap []"
  by (simp add: yaml_def env_lookup_def sorted_states_def safe_dump_def sorted_items_def)

theorem yaml_unknown_environment_witness:
  "(Map.empty(''base'' \<mapsto> [\<lparr>name = PStr ''api'', url = PStr ''https://example/api.git'', ref = None\<rparr>])) ''prod'' = None
   \<and> yaml offline_world
        (Map.empty(''base'' \<mapsto> [\<lparr>name = PStr ''api'', url = PStr ''https://example/api.git'', ref = None\<rparr>]))
        ''prod'' []
      = (Inr (YMap []),
         (Map.empty(''base'' \<mapsto> [\<lparr>name = PStr ''api'', url = PStr ''https://example/api.git'', ref = None\<rparr>]))
           (''prod'' \<mapsto> []),
         [])"
proof -
  let ?envs = "Map.empty(''base'' \<mapsto> [\<lparr>name = PStr ''api'', url = PStr ''https://example/api.git'', ref = None\<rparr>])"
  have n: "?envs ''prod'' = None" by simp
  show ?thesis
    using yaml_unknown_environment [of ?envs "''prod''" offline_world "[]"] n
    by simp
qed

section \<open>The validator (\<^verbatim>\<open>StateTreeRepo._verify_state\<close>)\<close>








section \<open>Scanning the root repository (\<^verbatim>\<open>StateTreeRepo.__init__\<close>, \<^verbatim>\<open>_scan\<close>)\<close>

text \<open>
  The branch listing: lines that are no remote branch are passed over, and so is a remote
  branch whose name holds white space, be it the no-break space U+00A0.
\<close>

lemma re_branch_lines:
  "List.map_filter re_branch
     (split_lines (''* base'' @ [CHR 0x0A] @ ''  remotes/origin/HEAD -> origin/base'' @ [CHR 0x0A]
        @ ''  remotes/origin/docs'' @ [CHR 0x0A] @ ''  remotes/origin/base'' @ [CHR 0x0A]))
     = [''docs'', ''base'']"
  "re_branch (''  remotes/origin/ba'' @ [CHR 0xC2, CHR 0xA0] @ ''se'') = None"
  by code_simp+

lemma scan_branches_append:
  "scan_branches w repo pre envs tr = (Inr envs1, tr1) \<Longrightarrow>
   scan_branches w repo (pre @ rest) envs tr = scan_branches w repo rest envs1 tr1"
proof (induction pre arbitrary: envs tr)
  case Nil
  then show ?case by simp
next
  case (Cons b pre)
  then show ?case
    by (auto split: prod.splits sum.splits manifest.splits)
qed

lemma scan_entries_dom:
  "scan_entries es b envs h tr = (Inr envs', tr') \<Longrightarrow> dom envs' \<subseteq> insert b (dom envs)"
proof (induction es arbitrary: envs h tr)
  case Nil
  then show ?case by auto
next
  case (Cons e es)
  show ?case
  proof (cases "outcome (verify_state (value_of h e))")
    case (Inl x)
    with Cons.prems show ?thesis
      by (simp add: env_lookup_def Let_def split: option.splits)
  next
    case (Inr s)
    with Cons.prems obtain envs2 h2 tr2 where
      step: "scan_entries es b envs2 h2 tr2 = (Inr envs', tr')"
      and d: "dom envs2 \<subseteq> insert b (dom envs)"
      by (auto simp: env_lookup_def Let_def split: option.splits)
    from Cons.IH [OF step] d show ?thesis by blast
  qed
qed

lemma scan_branches_dom:
  "scan_branches w repo bs envs tr = (Inr envs', tr') \<Longrightarrow> dom envs' \<subseteq> dom envs \<union> set bs"
proof (induction bs arbitrary: envs tr)
  case Nil
  then show ?case by auto
next
  case (Cons b bs)
  obtain r tr1 where g: "git w repo [PStr ''checkout'', PStr b] tr = (r, tr1)"
    by (cases "git w repo [PStr ''checkout'', PStr b] tr")
  show ?case
  proof (cases "read_manifest w tr1")
    case FileNotFoundError
    with Cons.prems g have "scan_branches w repo bs envs tr1 = (Inr envs', tr')"
      by (simp split: sum.splits)
    from Cons.IH [OF this] show ?thesis by auto
  next
    case (YAMLError exc)
    with Cons.prems g show ?thesis by (simp split: sum.splits)
  next
    case (Raised e)
    with Cons.prems g show ?thesis by (simp split: sum.splits)
  next
    case (Loaded document)
    with Cons.prems g obtain es h envs2 tr2 where
      e: "scan_entries es b envs h tr1 = (Inr envs2, tr2)" and
      s: "scan_branches w repo bs envs2 tr2 = (Inr envs', tr')"
      by (auto split: sum.splits prod.splits)
    from scan_entries_dom [OF e] have "dom envs2 \<subseteq> insert b (dom envs)" .
    moreover from Cons.IH [OF s] have "dom envs' \<subseteq> dom envs2 \<union> set bs" .
    ultimately show ?thesis by (simp add: subset_iff) blast
  qed
qed

text \<open>
  What \<^verbatim>\<open>StateTreeRepo(url)\<close> gives when the clone has succeeded, the scan has gone
  through the branches before \<open>branch\<close> and has checked \<open>branch\<close> out. If its
  \<^verbatim>\<open>states.yaml\<close> is missing, the scan goes on with the remaining branches from the
  environments as they were, and when \<open>branch\<close> is listed once it is not a key of the
  result. If decoding raises a \<^verbatim>\<open>YAMLError\<close>, the constructor raises \<^verbatim>\<open>StateParseError\<close>
  with the branch in its message. If reading or decoding raises anything else, the
  constructor raises just that. An exception is all the caller gets: no environments.
\<close>

lemma StateTreeRepo_manifest:
  "Repo w root tr = (Inr repo, trc)
   \<and> branches w repo trc = (Inr (pre @ branch # rest), tr0)
   \<and> scan_branches w repo pre Map.empty tr0 = (Inr envs1, tr1)
   \<and> git w repo [PStr ''checkout'', PStr branch] tr1 = (Inr out, tr2)
   \<longrightarrow>
     (read_manifest w tr2 = FileNotFoundError \<longrightarrow>
        StateTreeRepo w root tr = scan_branches w repo rest envs1 tr2
        \<and> (branch \<notin> set pre \<union> set rest \<longrightarrow>
             (\<forall>envs' tr'. StateTreeRepo w root tr = (Inr envs', tr') \<longrightarrow> envs' branch = None)))
   \<and> (read_manifest w tr2 = YAMLError exc \<longrightarrow>
        StateTreeRepo w root tr
          = (Inl (StateParseError (''Could no parse states.yaml for branch '' @ branch @ '': '' @ exc)),
             tr2))
   \<and> (read_manifest w tr2 = Raised e \<longrightarrow> StateTreeRepo w root tr = (Inl e, tr2))"
proof (intro impI)
  assume a: "Repo w root tr = (Inr repo, trc)
   \<and> branches w repo trc = (Inr (pre @ branch # rest), tr0)
   \<and> scan_branches w repo pre Map.empty tr0 = (Inr envs1, tr1)
   \<and> git w repo [PStr ''checkout'', PStr branch] tr1 = (Inr out, tr2)"
  then have s: "StateTreeRepo w root tr = scan_branches w repo (branch # rest) envs1 tr1"
    by (simp add: StateTreeRepo_def scan_def scan_branches_append)
  have missing: "StateTreeRepo w root tr = scan_branches w repo rest envs1 tr2"
    if "read_manifest w tr2 = FileNotFoundError"
    using s a that by simp
  have nokey: "envs' branch = None"
    if m: "read_manifest w tr2 = FileNotFoundError"
      and n: "branch \<notin> set pre \<union> set rest"
      and r: "StateTreeRepo w root tr = (Inr envs', tr')" for envs' tr'
  proof -
    from missing [OF m] r have "scan_branches w repo rest envs1 tr2 = (Inr envs', tr')"
      by simp
    then have "dom envs' \<subseteq> dom envs1 \<union> set rest"
      by (rule scan_branches_dom)
    moreover from a have "dom envs1 \<subseteq> dom (Map.empty :: environments) \<union> set pre"
      by (blast dest: scan_branches_dom)
    ultimately show ?thesis using n by auto
  qed
  have broken: "StateTreeRepo w root tr
          = (Inl (StateParseError (''Could no parse states.yaml for branch '' @ branch @ '': '' @ exc)),
             tr2)"
    if "read_manifest w tr2 = YAMLError exc"
    using s a that by simp
  have other: "StateTreeRepo w root tr = (Inl e, tr2)"
    if "read_manifest w tr2 = Raised e"
    using s a that by simp
  from missing nokey broken other
  show "(read_manifest w tr2 = FileNotFoundError \<longrightarrow>
        StateTreeRepo w root tr = scan_branches w repo rest envs1 tr2
        \<and> (branch \<notin> set pre \<union> set rest \<longrightarrow>
             (\<forall>envs' tr'. StateTreeRepo w root tr = (Inr envs', tr') \<longrightarrow> envs' branch = None)))
   \<and> (read_manifest w tr2 = YAMLError exc \<longrightarrow>
        StateTreeRepo w root tr
          = (Inl (StateParseError (''Could no parse states.yaml for branch '' @ branch @ '': '' @ exc)),
             tr2))
   \<and> (read_manifest w tr2 = Raised e \<longrightarrow> StateTreeRepo w root tr = (Inl e, tr2))"
    by blast
qed

text \<open>
  The root repository with a manifest on \<^verbatim>\<open>base\<close> only: the branch \<^verbatim>\<open>docs\<close> is passed
  over and is no key of the environments.
\<close>

lemma StateTreeRepo_good_tree:
  "StateTreeRepo good_tree (PStr ''ssh://git@example/tree.git'') []
     = (Inr (Map.empty(''base'' \<mapsto> [api, db])),
        [Exec (PStr ''ssh://git@example/tree.git'')
           [''git'', ''clone'', ''--depth=1'', ''--quiet'', ''--no-single-branch'',
            ''ssh://git@example/tree.git'', ''git''],
         Exec (PStr ''ssh://git@example/tree.git'') [''git'', ''branch'', ''--list'', ''--all''],
         Exec (PStr ''ssh://git@example/tree.git'') [''git'', ''checkout'', ''docs''],
         Exec (PStr ''ssh://git@example/tree.git'') [''git'', ''checkout'', ''base''],
         Print (py_str (PDict [(PStr ''api'', PStr ''https://example/api.git'')])),
         Print (py_str (PDict [(PStr ''db'', PDict [(PStr ''url'', PStr ''https://example/db.git''),
                                                     (PStr ''tag'', PStr ''v1.0'')])]))])"
proof -
  let ?u = "PStr ''ssh://git@example/tree.git''"
  let ?c = "Exec ?u [''git'', ''clone'', ''--depth=1'', ''--quiet'', ''--no-single-branch'',
                     ''ssh://git@example/tree.git'', ''git'']"
  let ?l = "Exec ?u [''git'', ''branch'', ''--list'', ''--all'']"
  let ?d = "Exec ?u [''git'', ''checkout'', ''docs'']"
  let ?b = "Exec ?u [''git'', ''checkout'', ''base'']"
  have g0: "Repo good_tree ?u [] = (Inr ?u, [?c])"
    by code_simp
  have g1: "branches good_tree ?u [?c] = (Inr ([] @ ''docs'' # [''base'']), [?c, ?l])"
    by code_simp
  have g2: "scan_branches good_tree ?u [] Map.empty [?c, ?l] = (Inr Map.empty, [?c, ?l])"
    by simp
  have g3: "git good_tree ?u [PStr ''checkout'', PStr ''docs''] [?c, ?l] = (Inr [], [?c, ?l, ?d])"
    by code_simp
  have g4: "read_manifest good_tree [?c, ?l, ?d] = FileNotFoundError"
    by code_simp
  have g6: "git good_tree ?u [PStr ''checkout'', PStr ''base''] [?c, ?l, ?d]
              = (Inr [], [?c, ?l, ?d, ?b])"
    by code_simp
  have g7: "read_manifest good_tree [?c, ?l, ?d, ?b] = Loaded (Tree base_manifest)"
    by code_simp
  have g8: "scan_branches good_tree ?u [''base''] Map.empty [?c, ?l, ?d]
     = (Inr (Map.empty(''base'' \<mapsto> [api, db])), [?c, ?l, ?d, ?b,
         Print (py_str (PDict [(PStr ''api'', PStr ''https://example/api.git'')])),
         Print (py_str (PDict [(PStr ''db'', PDict [(PStr ''url'', PStr ''https://example/db.git''),
                                                     (PStr ''tag'', PStr ''v1.0'')])]))])"
    by (simp add: g6 g7 base_manifest_def env_lookup_def verify_state_def verify_options_def
          state_options_keys_def key_eq_def dict_in_def value_of_def api_def db_def
          del: py_str.simps)
  show ?thesis
    using StateTreeRepo_manifest [where w = good_tree and root = ?u and repo = ?u and tr = "[]"
        and trc = "[?c]" and pre = "[]" and branch = "''docs''" and rest = "[''base'']"
        and ?tr0.0 = "[?c, ?l]" and ?envs1.0 = Map.empty and ?tr1.0 = "[?c, ?l]" and out = "[]"
        and ?tr2.0 = "[?c, ?l, ?d]"]
      g0 g1 g2 g3 g4 g8
    by simp
qed

text \<open>
  Claim C7, at a manifest the scan does not handle as the claim says. On the branch
  \<^verbatim>\<open>base\<close> the file \<^verbatim>\<open>states.yaml\<close> exists and does not decode. Where the decoder raises a
  \<^verbatim>\<open>YAMLError\<close> (\<open>broken_tree\<close>), the constructor raises \<^verbatim>\<open>StateParseError\<close> naming
  \<^verbatim>\<open>base\<close>. Where it raises \<^verbatim>\<open>ValueError\<close> (\<open>misdated_tree\<close>, the manifest
  \<^verbatim>\<open>- a: 2001-02-30\<close>), \<^verbatim>\<open>except yaml.YAMLError\<close> does not catch it and the constructor
  raises the bare \<^verbatim>\<open>ValueError\<close>, which names no branch. In both the caller gets no
  environments.
\<close>

theorem StateTreeRepo_undecodable_manifest:
  "StateTreeRepo broken_tree (PStr ''ssh://git@example/tree.git'') []
     = (Inl (StateParseError
          ''Could no parse states.yaml for branch base: mapping values are not allowed here''),
        [Exec (PStr ''ssh://git@example/tree.git'')
           [''git'', ''clone'', ''--depth=1'', ''--quiet'', ''--no-single-branch'',
            ''ssh://git@example/tree.git'', ''git''],
         Exec (PStr ''ssh://git@example/tree.git'') [''git'', ''branch'', ''--list'', ''--all''],
         Exec (PStr ''ssh://git@example/tree.git'') [''git'', ''checkout'', ''docs''],
         Exec (PStr ''ssh://git@example/tree.git'') [''git'', ''checkout'', ''base'']])
   \<and> StateTreeRepo misdated_tree (PStr ''ssh://git@example/tree.git'') []
     = (Inl ValueError,
        [Exec (PStr ''ssh://git@example/tree.git'')
           [''git'', ''clone'', ''--depth=1'', ''--quiet'', ''--no-single-branch'',
            ''ssh://git@example/tree.git'', ''git''],
         Exec (PStr ''ssh://git@example/tree.git'') [''git'', ''branch'', ''--list'', ''--all''],
         Exec (PStr ''ssh://git@example/tree.git'') [''git'', ''checkout'', ''docs''],
         Exec (PStr ''ssh://git@example/tree.git'') [''git'', ''checkout'', ''base'']])"
proof -
  let ?u = "PStr ''ssh://git@example/tree.git''"
  let ?c = "Exec ?u [''git'', ''clone'', ''--depth=1'', ''--quiet'', ''--no-single-branch'',
                     ''ssh://git@example/tree.git'', ''git'']"
  let ?l = "Exec ?u [''git'', ''branch'', ''--list'', ''--all'']"
  let ?d = "Exec ?u [''git'', ''checkout'', ''docs'']"
  let ?b = "Exec ?u [''git'', ''checkout'', ''base'']"
  have b0: "Repo broken_tree ?u [] = (Inr ?u, [?c])"
    by code_simp
  have b1: "branches broken_tree ?u [?c] = (Inr ([''docs''] @ ''base'' # []), [?c, ?l])"
    by code_simp
  have b2: "git broken_tree ?u [PStr ''checkout'', PStr ''docs''] [?c, ?l] = (Inr [], [?c, ?l, ?d])"
    by code_simp
  have b3: "read_manifest broken_tree [?c, ?l, ?d] = FileNotFoundError"
    by code_simp
  have b4: "scan_branches broken_tree ?u [''docs''] Map.empty [?c, ?l] = (Inr Map.empty, [?c, ?l, ?d])"
    by (simp add: b2 b3)
  have b5: "git broken_tree ?u [PStr ''checkout'', PStr ''base''] [?c, ?l, ?d]
              = (Inr [], [?c, ?l, ?d, ?b])"
    by code_simp
  have b6: "read_manifest broken_tree [?c, ?l, ?d, ?b]
              = YAMLError ''mapping values are not allowed here''"
    by code_simp
  have m0: "Repo misdated_tree ?u [] = (Inr ?u, [?c])"
    by code_simp
  have m1: "branches misdated_tree ?u [?c] = (Inr ([''docs''] @ ''base'' # []), [?c, ?l])"
    by code_simp
  have m2: "git misdated_tree ?u [PStr ''checkout'', PStr ''docs''] [?c, ?l] = (Inr [], [?c, ?l, ?d])"
    by code_simp
  have m3: "read_manifest misdated_tree [?c, ?l, ?d] = FileNotFoundError"
    by code_simp
  have m4: "scan_branches misdated_tree ?u [''docs''] Map.empty [?c, ?l]
              = (Inr Map.empty, [?c, ?l, ?d])"
    by (simp add: m2 m3)
  have m5: "git misdated_tree ?u [PStr ''checkout'', PStr ''base''] [?c, ?l, ?d]
              = (Inr [], [?c, ?l, ?d, ?b])"
    by code_simp
  have m6: "read_manifest misdated_tree [?c, ?l, ?d, ?b] = Raised ValueError"
    by code_simp
  show ?thesis
    using StateTreeRepo_manifest [where w = broken_tree and root = ?u and repo = ?u and tr = "[]"
        and trc = "[?c]" and pre = "[''docs'']" and branch = "''base''" and rest = "[]"
        and ?tr0.0 = "[?c, ?l]" and ?envs1.0 = Map.empty and ?tr1.0 = "[?c, ?l, ?d]" and out = "[]"
        and ?tr2.0 = "[?c, ?l, ?d, ?b]" and exc = "''mapping values are not allowed here''"]
      StateTreeRepo_manifest [where w = misdated_tree and root = ?u and repo = ?u and tr = "[]"
        and trc = "[?c]" and pre = "[''docs'']" and branch = "''base''" and rest = "[]"
        and ?tr0.0 = "[?c, ?l]" and ?envs1.0 = Map.empty and ?tr1.0 = "[?c, ?l, ?d]" and out = "[]"
        and ?tr2.0 = "[?c, ?l, ?d, ?b]" and e = ValueError]
      b0 b1 b4 b5 b6 m0 m1 m4 m5 m6
    by simp
qed

text \<open>
  Entries that are one object. In \<^verbatim>\<open>[&a {api: https://example/api.git}, *a]\<close> the second
  entry is the dict the first validation has emptied; in
  \<^verbatim>\<open>[{api: &o {url: https://example/api.git}}, {web: *o}]\<close> the options of the second
  entry have lost their URL to the first validation.
\<close>

lemma scan_entries_alias:
  "map_sum id (\<lambda>envs. envs ''base'')
     (fst (scan_entries [Obj 0, Obj 0] ''base'' Map.empty
            [(0, [(PStr ''api'', Val (PStr ''https://example/api.git''))])] []))
     = Inl (StateParseError ''State should have options grouped under a single key, not '')"
  "map_sum id (\<lambda>envs. envs ''base'')
     (fst (scan_entries [Obj 1, Obj 2] ''base'' Map.empty
            [(0, [(PStr ''url'', Val (PStr ''https://example/api.git''))]),
             (1, [(PStr ''api'', Obj 0)]), (2, [(PStr ''web'', Obj 0)])] []))
     = Inl (StateParseError (''State web missing mandatory option '' @ quoted ''url''))"
  by code_simp+

section \<open>The export and the order of the manifest\<close>

lemma sorted_states_permutation:
  assumes "mset ys = mset xs" and "inj_on State_repr (set xs)"
  shows "sorted_states ys = sorted_states xs"
proof -
  from assms(1) have "set ys = set xs" by (rule mset_eq_setD)
  with assms(2) have i: "inj_on State_repr (set ys)" by simp
  from assms(1) have m: "mset ys = mset (sort_key State_repr xs)" by simp
  have "sorted (map State_repr (sort_key State_repr xs))" by simp
  with m i have "sort_key State_repr ys = sort_key State_repr xs"
    by (rule sort_key_inj_key_eq)
  then show ?thesis by (simp add: sorted_states_def)
qed

lemma yaml_known:
  assumes "envs environment = Some xs"
  shows "fst (yaml w envs environment tr)
           = map_sum id (\<lambda>d. safe_dump (PDict d)) (fst (yaml_update w (sorted_states xs) [] tr))"
    and "snd (snd (yaml w envs environment tr)) = snd (yaml_update w (sorted_states xs) [] tr)"
proof -
  obtain r tr' where u: "yaml_update w (sorted_states xs) [] tr = (r, tr')"
    by (cases "yaml_update w (sorted_states xs) [] tr")
  from assms have l: "env_lookup envs environment = (xs, envs)"
    by (simp add: env_lookup_def)
  show "fst (yaml w envs environment tr)
           = map_sum id (\<lambda>d. safe_dump (PDict d)) (fst (yaml_update w (sorted_states xs) [] tr))"
    by (cases r) (simp_all add: yaml_def l u)
  show "snd (snd (yaml w envs environment tr)) = snd (yaml_update w (sorted_states xs) [] tr)"
    by (cases r) (simp_all add: yaml_def l u)
qed

text \<open>
  Claim C5, as the code has it. Let two lists of states hold the same states, in any
  order, and let no two different states among them have the same rendering
  (\<^verbatim>\<open>__repr__\<close>). Then the export of the one and of the other give the same result, be
  it a document or an exception, after the same git processes.
\<close>

theorem yaml_permutation_distinct_renderings:
  "mset ys = mset xs \<and> inj_on State_repr (set xs) \<and> envs1 environment = Some xs
     \<and> envs2 environment = Some ys
   \<longrightarrow> fst (yaml w envs2 environment tr) = fst (yaml w envs1 environment tr)
     \<and> snd (snd (yaml w envs2 environment tr)) = snd (snd (yaml w envs1 environment tr))"
proof (intro impI)
  assume a: "mset ys = mset xs \<and> inj_on State_repr (set xs) \<and> envs1 environment = Some xs
     \<and> envs2 environment = Some ys"
  then have p: "sorted_states ys = sorted_states xs"
    by (blast intro: sorted_states_permutation)
  from a have e1: "envs1 environment = Some xs" and e2: "envs2 environment = Some ys"
    by blast+
  show "fst (yaml w envs2 environment tr) = fst (yaml w envs1 environment tr)
     \<and> snd (snd (yaml w envs2 environment tr)) = snd (snd (yaml w envs1 environment tr))"
    by (simp only: yaml_known [of envs1 environment xs, OF e1]
          yaml_known [of envs2 environment ys, OF e2] p)
qed

theorem yaml_permutation_distinct_renderings_witness:
  "mset [db, api] = mset [api, db] \<and> inj_on State_repr (set [api, db])
   \<and> (Map.empty(''base'' \<mapsto> [api, db])) ''base'' = Some [api, db]
   \<and> (Map.empty(''base'' \<mapsto> [db, api])) ''base'' = Some [db, api]
   \<and> fst (yaml obliging_world (Map.empty(''base'' \<mapsto> [db, api])) ''base'' [])
     = fst (yaml obliging_world (Map.empty(''base'' \<mapsto> [api, db])) ''base'' [])
   \<and> fst (yaml obliging_world (Map.empty(''base'' \<mapsto> [api, db])) ''base'' [])
     = Inr (YMap [(YScalar (PStr ''api''), YScalar (PStr ''https://example/api.git'')),
                  (YScalar (PStr ''db''),
                   YMap [(YScalar (PStr ''tag''), YScalar (PStr ''v1.0'')),
                         (YScalar (PStr ''url''), YScalar (PStr ''https://example/db.git''))])])"
proof -
  have m: "mset [db, api] = mset [api, db]" by simp
  have i: "inj_on State_repr (set [api, db])"
    by (simp add: api_def db_def State_repr_def)
  have d: "fst (yaml obliging_world (Map.empty(''base'' \<mapsto> [api, db])) ''base'' [])
     = Inr (YMap [(YScalar (PStr ''api''), YScalar (PStr ''https://example/api.git'')),
                  (YScalar (PStr ''db''),
                   YMap [(YScalar (PStr ''tag''), YScalar (PStr ''v1.0'')),
                         (YScalar (PStr ''url''), YScalar (PStr ''https://example/db.git''))])])"
    by code_simp
  show ?thesis
    using yaml_permutation_distinct_renderings [of "[db, api]" "[api, db]"
        "Map.empty(''base'' \<mapsto> [api, db])" "''base''" "Map.empty(''base'' \<mapsto> [db, api])"
        obliging_world "[]"] m i d
    by simp
qed

text \<open>
  The claim as worded holds for every permutation. The two states \<^verbatim>\<open>web\<close> render alike,
  \<^verbatim>\<open>web (https://x/a) [Tag: v1) [Tag: v2]\<close>, so the stable sort leaves them in manifest
  order and the later one wins: the two orders export different documents.
\<close>

theorem yaml_equal_renderings_order_matters:
  "State_repr web_a = State_repr web_b
   \<and> fst (yaml obliging_world (Map.empty(''base'' \<mapsto> [web_a, web_b])) ''base'' [])
     = Inr (YMap [(YScalar (PStr ''web''),
                   YMap [(YScalar (PStr ''tag''), YScalar (PStr ''v2'')),
                         (YScalar (PStr ''url''), YScalar (PStr ''https://x/a) [Tag: v1''))])])
   \<and> fst (yaml obliging_world (Map.empty(''base'' \<mapsto> [web_b, web_a])) ''base'' [])
     = Inr (YMap [(YScalar (PStr ''web''),
                   YMap [(YScalar (PStr ''tag''), YScalar (PStr ''v1) [Tag: v2'')),
                         (YScalar (PStr ''url''), YScalar (PStr ''https://x/a''))])])"
  by code_simp

section \<open>Dicts and the loop of the export\<close>

lemma key_eq_refl: "key_eq k k"
  by (cases k) (simp_all add: key_eq_def)

lemma key_eq_sym: "key_eq a b \<Longrightarrow> key_eq b a"
  by (auto simp: key_eq_def split: option.splits)

lemma key_eq_trans: "key_eq a b \<Longrightarrow> key_eq b c \<Longrightarrow> key_eq a c"
  by (auto simp: key_eq_def split: option.splits)

lemma key_eq_PStr [simp]: "key_eq k (PStr n) = (k = PStr n)" "key_eq (PStr n) k = (k = PStr n)"
  by (cases k; auto simp: key_eq_def)+

lemma dict_get_set:
  "dict_get (dict_set d k v) q = (if key_eq k q then Some v else dict_get d q)"
proof (induction d)
  case Nil
  then show ?case by simp
next
  case (Cons x d)
  obtain k' v' where x: "x = (k', v')" by (cases x)
  show ?case
  proof (cases "key_eq k' k")
    case True
    then have "key_eq k' q = key_eq k q"
      by (blast intro: key_eq_sym key_eq_trans)
    with True x show ?thesis by simp
  next
    case False
    then have "\<not> (key_eq k' q \<and> key_eq k q)"
      by (blast intro: key_eq_sym key_eq_trans)
    with False x Cons.IH show ?thesis by auto
  qed
qed

lemma dict_get_foldl:
  "dict_get (foldl (\<lambda>d x. dict_set d (f x) (g x)) d0 xs) q
     = (case filter (\<lambda>x. key_eq (f x) q) xs of
          [] \<Rightarrow> dict_get d0 q
        | y # ys \<Rightarrow> Some (g (last (y # ys))))"
proof (induction xs rule: rev_induct)
  case Nil
  then show ?case by simp
next
  case (snoc x xs)
  then show ?case
    by (simp add: dict_get_set split: list.splits)
qed

lemma dict_set_keys:
  "set (map fst (dict_set d k v))
     = (if list_ex (\<lambda>k'. key_eq k' k) (map fst d) then set (map fst d)
        else insert k (set (map fst d)))"
proof (induction d)
  case Nil
  then show ?case by simp
next
  case (Cons x d)
  obtain k' v' where x: "x = (k', v')" by (cases x)
  show ?case
  proof (cases "key_eq k' k")
    case True
    with x show ?thesis by simp
  next
    case False
    with x Cons.IH show ?thesis by (simp add: insert_commute)
  qed
qed

lemma dict_set_keys_subset: "set (map fst (dict_set d k v)) \<subseteq> insert k (set (map fst d))"
  unfolding dict_set_keys by (simp add: subset_insertI)

lemma dict_set_keys_PStr:
  "set (map fst (dict_set d (PStr n) v)) = insert (PStr n) (set (map fst d))"
  unfolding dict_set_keys by (auto simp: list_ex_iff)

lemma dict_set_distinct:
  "distinct (map fst d) \<Longrightarrow> distinct (map fst (dict_set d k v))"
proof (induction d)
  case Nil
  then show ?case by simp
next
  case (Cons x d)
  obtain k' v' where x: "x = (k', v')" by (cases x)
  show ?case
  proof (cases "key_eq k' k")
    case True
    with x Cons.prems show ?thesis by simp
  next
    case False
    have "set (map fst (dict_set d k v)) \<subseteq> insert k (set (map fst d))"
      by (rule dict_set_keys_subset)
    moreover from False have "k' \<noteq> k"
      using key_eq_refl by auto
    ultimately have "k' \<notin> set (map fst (dict_set d k v))"
      using Cons.prems x by auto
    with False x Cons show ?thesis by simp
  qed
qed

lemma foldl_dict_set_distinct:
  "distinct (map fst d0) \<Longrightarrow> distinct (map fst (foldl (\<lambda>d x. dict_set d (f x) (g x)) d0 xs))"
  by (induction xs rule: rev_induct) (simp_all add: dict_set_distinct)

lemma foldl_dict_set_str_keys:
  "list_all (\<lambda>x. is_str (f x)) xs \<Longrightarrow>
   set (map fst (foldl (\<lambda>d x. dict_set d (f x) (g x)) d0 xs)) = set (map fst d0) \<union> f ` set xs"
proof (induction xs rule: rev_induct)
  case Nil
  then show ?case by simp
next
  case (snoc x xs)
  then obtain n where n: "f x = PStr n" by (cases "f x") simp_all
  from snoc have "set (map fst (foldl (\<lambda>d x. dict_set d (f x) (g x)) d0 xs))
      = set (map fst d0) \<union> f ` set xs" by simp
  then show ?case
    by (simp add: n dict_set_keys_PStr del: set_map)
qed

lemma dict_get_map_of_PStr: "dict_get d (PStr n) = map_of d (PStr n)"
  by (induction d) auto

lemma filter_key_distinct:
  "distinct (map fst d) \<Longrightarrow>
   filter (\<lambda>kv. fst kv = q) d = (case map_of d q of None \<Rightarrow> [] | Some v \<Rightarrow> [(q, v)])"
proof (induction d)
  case Nil
  then show ?case by simp
next
  case (Cons x d)
  obtain k' v' where x: "x = (k', v')" by (cases x)
  show ?case
  proof (cases "k' = q")
    case True
    with Cons.prems x have "map_of d q = None"
      by (simp add: map_of_eq_None_iff image_iff)
    with True x Cons show ?thesis by simp
  next
    case False
    with x Cons show ?thesis by simp
  qed
qed

lemma as_dict_Inr:
  "as_dict w v self tr = (Inr x, tr') \<Longrightarrow> x = [(name self, state_value self)]"
  by (auto simp: as_dict_def state_value_def split: prod.splits sum.splits option.splits)

lemma yaml_update_Inr:
  "yaml_update w states d tr = (Inr d', tr') \<Longrightarrow>
   d' = foldl (\<lambda>d s. dict_set d (name s) (state_value s)) d states"
proof (induction states arbitrary: d tr)
  case Nil
  then show ?case by simp
next
  case (Cons s states)
  then obtain x tr1 where a: "as_dict w True s tr = (Inr x, tr1)"
    and u: "yaml_update w states (dict_update d x) tr1 = (Inr d', tr')"
    by (auto split: prod.splits sum.splits)
  from as_dict_Inr [OF a] have "dict_update d x = dict_set d (name s) (state_value s)"
    by (simp add: dict_update_def)
  with Cons.IH [OF u] show ?case by simp
qed

section \<open>The exported document\<close>

lemma sorted_le_last: "sorted (xs :: string list) \<Longrightarrow> x \<in> set xs \<Longrightarrow> x \<le> last xs"
  by (induction xs) (auto split: if_splits)

lemma represent_eq_PStr [simp]:
  "(represent k = YScalar (PStr n)) = (k = PStr n)"
  "(YScalar (PStr n) = represent k) = (k = PStr n)"
  by (cases k; auto)+

lemma map_of_represent:
  "map_of (map (\<lambda>kv. (represent (fst kv), represent (snd kv))) items) (YScalar (PStr n))
     = map_option represent (map_of items (PStr n))"
  by (induction items) auto

lemma map_of_filter_key:
  "map_of items q = map_of (filter (\<lambda>kv. fst kv = q) items) q"
  by (induction items) auto

lemma sorted_items_filter_PStr:
  "filter (\<lambda>kv. fst kv = PStr n) (sorted_items items) = filter (\<lambda>kv. fst kv = PStr n) items"
proof (cases "list_all is_str (map fst items)")
  case True
  let ?f = "\<lambda>kv :: pyval \<times> pyval. str_of (fst kv)"
  have eq: "(fst kv = PStr n) = (?f kv = n)" if "kv \<in> set items" for kv
  proof -
    from True that have "is_str (fst kv)" by (auto simp: list_all_iff)
    then show ?thesis by (cases "fst kv") simp_all
  qed
  have "filter (\<lambda>kv. fst kv = PStr n) (sort_key ?f items)
          = filter (\<lambda>kv. ?f kv = n) (sort_key ?f items)"
    by (rule filter_cong) (simp_all add: eq)
  also have "\<dots> = filter (\<lambda>kv. ?f kv = n) items"
    by (rule sort_key_stable)
  also have "\<dots> = filter (\<lambda>kv. fst kv = PStr n) items"
    by (rule filter_cong) (simp_all add: eq)
  finally show ?thesis using True by (simp add: sorted_items_def)
next
  case False
  show ?thesis
  proof (cases "list_all (\<lambda>k. num_of k \<noteq> None) (map fst items)")
    case True
    have no: "fst kv \<noteq> PStr n" if "kv \<in> set items" for kv
      using True that by (auto simp: list_all_iff)
    have "filter (\<lambda>kv. fst kv = PStr n) (sort_key (\<lambda>kv. int_of (fst kv)) items) = []"
      by (simp add: filter_empty_conv no)
    moreover have "filter (\<lambda>kv. fst kv = PStr n) items = []"
      by (simp add: filter_empty_conv no)
    ultimately show ?thesis using True False by (simp add: sorted_items_def)
  next
    case False
    with \<open>\<not> list_all is_str (map fst items)\<close> show ?thesis by (simp add: sorted_items_def)
  qed
qed

lemma node_get_safe_dump:
  "node_get (safe_dump (PDict d)) (PStr n) = map_option represent (dict_get d (PStr n))"
proof -
  have "map_of (sorted_items d) (PStr n) = map_of d (PStr n)"
    using map_of_filter_key [of "sorted_items d" "PStr n"] map_of_filter_key [of d "PStr n"]
    by (simp add: sorted_items_filter_PStr)
  then show ?thesis
    by (simp add: safe_dump_def map_of_represent dict_get_map_of_PStr)
qed

lemma sorted_states_sorted: "sorted (map State_repr (sorted_states xs))"
  by (simp add: sorted_states_def)

text \<open>
  \<open>sorted_states\<close> is what \<^verbatim>\<open>sorted\<close> computes from \<^verbatim>\<open>__lt__\<close>: a permutation in which no
  state is less than one before it, with states of equal rendering in their given order.
\<close>

lemma sorted_states_by_lt:
  "sorted_wrt (\<lambda>a b. \<not> State_lt b a) (sorted_states xs)"
  and "mset (sorted_states xs) = mset xs"
proof -
  have "sorted (map State_repr (sorted_states xs))"
    by (rule sorted_states_sorted)
  then have "sorted_wrt (\<lambda>a b. State_repr a \<le> State_repr b) (sorted_states xs)"
    by (simp add: sorted_map)
  then show "sorted_wrt (\<lambda>a b. \<not> State_lt b a) (sorted_states xs)"
    by (simp add: State_lt_def not_less)
  show "mset (sorted_states xs) = mset xs"
    by (simp add: sorted_states_def)
qed

lemma sorted_states_stable:
  "filter (\<lambda>s. State_repr s = r) (sorted_states xs) = filter (\<lambda>s. State_repr s = r) xs"
  unfolding sorted_states_def by (rule sort_key_stable)

lemma named_sorted_last:
  assumes "s \<in> set xs" and "name s = n"
  shows "last (named n (sorted_states xs)) \<in> set xs"
    and "name (last (named n (sorted_states xs))) = n"
    and "State_repr s \<le> State_repr (last (named n (sorted_states xs)))"
proof -
  let ?ys = "named n (sorted_states xs)"
  from assms have s: "s \<in> set ?ys" by (simp add: named_def sorted_states_def)
  then have ne: "?ys \<noteq> []" by auto
  then have l: "last ?ys \<in> set ?ys" by simp
  then show "last ?ys \<in> set xs" by (simp add: named_def sorted_states_def)
  from l show "name (last ?ys) = n" by (simp add: named_def)
  have "sorted (map State_repr ?ys)"
    unfolding named_def by (rule sorted_filter) (rule sorted_states_sorted)
  moreover from s have "State_repr s \<in> set (map State_repr ?ys)" by simp
  ultimately have "State_repr s \<le> last (map State_repr ?ys)" by (rule sorted_le_last)
  with ne show "State_repr s \<le> State_repr (last ?ys)" by (simp add: last_map)
qed

lemma yaml_Inr:
  assumes "envs environment = Some xs" and "fst (yaml w envs environment tr) = Inr document"
  shows "document = safe_dump (PDict (foldl (\<lambda>d s. dict_set d (name s) (state_value s)) []
                                        (sorted_states xs)))"
proof -
  obtain r tr' where u: "yaml_update w (sorted_states xs) [] tr = (r, tr')"
    by (cases "yaml_update w (sorted_states xs) [] tr")
  from assms have "map_sum id (\<lambda>d. safe_dump (PDict d)) r = Inr document"
    using yaml_known(1) [of envs environment xs w tr] u by simp
  then obtain d where r: "r = Inr d" and d: "document = safe_dump (PDict d)"
    by (cases r) auto
  from u r have "d = foldl (\<lambda>d s. dict_set d (name s) (state_value s)) [] (sorted_states xs)"
    by (simp add: yaml_update_Inr)
  with d show ?thesis by simp
qed

lemma final_dict_get:
  assumes "s \<in> set xs" and "name s = PStr n"
  shows "dict_get (foldl (\<lambda>d s. dict_set d (name s) (state_value s)) [] (sorted_states xs)) (PStr n)
           = Some (state_value (last (named (PStr n) (sorted_states xs))))"
proof -
  from assms have "s \<in> set (named (PStr n) (sorted_states xs))"
    by (simp add: named_def sorted_states_def)
  then obtain y ys where "named (PStr n) (sorted_states xs) = y # ys"
    by (cases "named (PStr n) (sorted_states xs)") auto
  then show ?thesis
    by (simp add: dict_get_foldl named_def)
qed

text \<open>
  Claim C4, as the code has it. \<^verbatim>\<open>yaml\<close> sorts the states by their rendering before it
  merges them, so among the states of one name the last of the sorted list wins: the
  document maps the name to the data of a state of that name whose rendering is the
  greatest (of states that render alike, the one listed last in the manifest).
\<close>

theorem yaml_same_name_greatest_rendering_wins:
  "envs environment = Some xs \<and> fst (yaml w envs environment tr) = Inr document
     \<and> s \<in> set xs \<and> name s = PStr n
   \<longrightarrow> node_get document (PStr n)
         = Some (represent (state_value (last (named (PStr n) (sorted_states xs)))))
     \<and> last (named (PStr n) (sorted_states xs)) \<in> set xs
     \<and> name (last (named (PStr n) (sorted_states xs))) = PStr n
     \<and> State_repr s \<le> State_repr (last (named (PStr n) (sorted_states xs)))"
proof (intro impI)
  assume a: "envs environment = Some xs \<and> fst (yaml w envs environment tr) = Inr document
     \<and> s \<in> set xs \<and> name s = PStr n"
  then have e: "envs environment = Some xs"
    and y: "fst (yaml w envs environment tr) = Inr document"
    and s: "s \<in> set xs" and n: "name s = PStr n"
    by blast+
  have "node_get document (PStr n)
         = Some (represent (state_value (last (named (PStr n) (sorted_states xs)))))"
    unfolding yaml_Inr [of envs environment xs w tr document, OF e y]
    by (simp add: node_get_safe_dump final_dict_get [OF s n])
  with named_sorted_last [OF s n]
  show "node_get document (PStr n)
         = Some (represent (state_value (last (named (PStr n) (sorted_states xs)))))
     \<and> last (named (PStr n) (sorted_states xs)) \<in> set xs
     \<and> name (last (named (PStr n) (sorted_states xs))) = PStr n
     \<and> State_repr s \<le> State_repr (last (named (PStr n) (sorted_states xs)))"
    by blast
qed


theorem yaml_same_name_greatest_rendering_wins_witness:
  "(Map.empty(''base'' \<mapsto> [web_first, web_second])) ''base'' = Some [web_first, web_second]
   \<and> fst (yaml obliging_world (Map.empty(''base'' \<mapsto> [web_first, web_second])) ''base'' [])
     = Inr (YMap [(YScalar (PStr ''web''), YScalar (PStr ''https://x/z.git''))])
   \<and> web_second \<in> set [web_first, web_second] \<and> name web_second = PStr ''web''
   \<and> last (named (PStr ''web'') (sorted_states [web_first, web_second])) = web_first
   \<and> node_get (YMap [(YScalar (PStr ''web''), YScalar (PStr ''https://x/z.git''))]) (PStr ''web'')
     = Some (represent (state_value web_first))
   \<and> State_repr web_second \<le> State_repr web_first"
proof -
  let ?envs = "Map.empty(''base'' \<mapsto> [web_first, web_second])"
  have e: "?envs ''base'' = Some [web_first, web_second]" by simp
  have y: "fst (yaml obliging_world ?envs ''base'' [])
     = Inr (YMap [(YScalar (PStr ''web''), YScalar (PStr ''https://x/z.git''))])"
    by code_simp
  have s: "web_second \<in> set [web_first, web_second] \<and> name web_second = PStr ''web''"
    by (simp add: web_second_def)
  have l: "last (named (PStr ''web'') (sorted_states [web_first, web_second])) = web_first"
    by code_simp
  show ?thesis
    using yaml_same_name_greatest_rendering_wins [of ?envs "''base''" "[web_first, web_second]"
        obliging_world "[]" "YMap [(YScalar (PStr ''web''), YScalar (PStr ''https://x/z.git''))]"
        web_second "''web''"] e y s l
    by simp
qed

text \<open>
  The claim as worded lets the entry listed last win. The manifest lists \<^verbatim>\<open>web\<close> with the
  URL \<^verbatim>\<open>https://x/z.git\<close> and then with \<^verbatim>\<open>https://x/a.git\<close>; the sort puts the second
  before the first, and the document has the URL of the first.
\<close>

theorem yaml_first_listed_entry_wins:
  "outcome (verify_state (PDict [(PStr ''web'', PStr ''https://x/z.git'')])) = Inr web_first
   \<and> outcome (verify_state (PDict [(PStr ''web'', PStr ''https://x/a.git'')])) = Inr web_second
   \<and> sorted_states [web_first, web_second] = [web_second, web_first]
   \<and> fst (yaml obliging_world (Map.empty(''base'' \<mapsto> [web_first, web_second])) ''base'' [])
     = Inr (YMap [(YScalar (PStr ''web''), YScalar (PStr ''https://x/z.git''))])"
  by code_simp

section \<open>The order of the keys in the document\<close>

lemma map_sort_key: "map f (sort_key f xs) = sort (map f xs)"
proof -
  have "mset (map f (sort_key f xs)) = mset (map f xs)" by simp
  moreover have "sorted (map f (sort_key f xs))" by simp
  ultimately show ?thesis by (rule properties_for_sort [symmetric])
qed

lemma final_dict_keys:
  assumes "list_all (\<lambda>s. is_str (name s)) xs"
  defines "d \<equiv> foldl (\<lambda>d s. dict_set d (name s) (state_value s)) [] (sorted_states xs)"
  shows "distinct (map fst d)" and "set (map fst d) = name ` set xs"
    and "list_all is_str (map fst d)"
proof -
  show "distinct (map fst d)"
    unfolding d_def by (rule foldl_dict_set_distinct) simp
  from assms(1) have h: "list_all (\<lambda>s. is_str (name s)) (sorted_states xs)"
    by (simp add: list_all_iff sorted_states_def)
  have "set (map fst d) = name ` set (sorted_states xs)"
    unfolding d_def using h by (simp add: foldl_dict_set_str_keys del: set_map)
  then show k: "set (map fst d) = name ` set xs"
    by (simp add: sorted_states_def)
  with assms(1) show "list_all is_str (map fst d)"
    unfolding list_all_iff by auto
qed

lemma node_keys_str_dict:
  assumes "list_all is_str (map fst d)"
  shows "node_keys (safe_dump (PDict d))
           = map (\<lambda>n. YScalar (PStr n)) (sort (map (\<lambda>kv. str_of (fst kv)) d))"
proof -
  let ?f = "\<lambda>kv :: pyval \<times> pyval. str_of (fst kv)"
  have r: "represent (fst kv) = YScalar (PStr (?f kv))" if "kv \<in> set d" for kv
  proof -
    from assms that have "is_str (fst kv)" by (auto simp: list_all_iff)
    then show ?thesis by (cases "fst kv") simp_all
  qed
  from assms have "node_keys (safe_dump (PDict d)) = map (\<lambda>kv. represent (fst kv)) (sort_key ?f d)"
    by (simp add: safe_dump_def sorted_items_def comp_def)
  also have "\<dots> = map (\<lambda>kv. YScalar (PStr (?f kv))) (sort_key ?f d)"
    by (rule map_cong) (simp_all add: r)
  also have "\<dots> = map (\<lambda>n. YScalar (PStr n)) (map ?f (sort_key ?f d))"
    by simp
  finally show ?thesis by (simp only: map_sort_key)
qed

lemma str_of_inj_on: "list_all is_str ks \<Longrightarrow> inj_on str_of (set ks)"
proof (rule inj_onI)
  fix a b
  assume "list_all is_str ks" "a \<in> set ks" "b \<in> set ks" "str_of a = str_of b"
  then have "is_str a" "is_str b" by (auto simp: list_all_iff)
  with \<open>str_of a = str_of b\<close> show "a = b" by (cases a; cases b) simp_all
qed

text \<open>
  Claim C9, as the code has it. \<^verbatim>\<open>yaml\<close> calls \<^verbatim>\<open>yaml.safe_dump\<close> without
  \<^verbatim>\<open>sort_keys=False\<close>, and the dump sorts the keys of a mapping. For an environment whose
  state names are strings the top-level keys of the document are the names, each once,
  in ascending order; the order in which the export inserted them is not kept.
\<close>

theorem yaml_keys_in_name_order:
  "envs environment = Some xs \<and> list_all (\<lambda>s. is_str (name s)) xs
     \<and> fst (yaml w envs environment tr) = Inr document
   \<longrightarrow> node_keys document
         = map (\<lambda>n. YScalar (PStr n)) (sort (remdups (map (\<lambda>s. str_of (name s)) xs)))"
proof (intro impI)
  assume a: "envs environment = Some xs \<and> list_all (\<lambda>s. is_str (name s)) xs
     \<and> fst (yaml w envs environment tr) = Inr document"
  then have e: "envs environment = Some xs" and t: "list_all (\<lambda>s. is_str (name s)) xs"
    and y: "fst (yaml w envs environment tr) = Inr document"
    by blast+
  let ?d = "foldl (\<lambda>d s. dict_set d (name s) (state_value s)) [] (sorted_states xs)"
  let ?ks = "map (\<lambda>kv. str_of (fst kv)) ?d"
  note k = final_dict_keys [OF t]
  have doc: "document = safe_dump (PDict ?d)"
    by (rule yaml_Inr [of envs environment xs w tr document, OF e y])
  have "distinct (map str_of (map fst ?d))"
    using k(1) str_of_inj_on [OF k(3)] by (simp only: distinct_map)
  then have dk: "distinct ?ks" by (simp add: comp_def)
  have "set ?ks = str_of ` set (map fst ?d)" by (simp add: image_image)
  also have "\<dots> = str_of ` name ` set xs" by (simp only: k(2))
  also have "\<dots> = set (remdups (map (\<lambda>s. str_of (name s)) xs))" by (simp add: image_image)
  finally have sk: "set (sort ?ks) = set (sort (remdups (map (\<lambda>s. str_of (name s)) xs)))"
    by simp
  have "sort ?ks = sort (remdups (map (\<lambda>s. str_of (name s)) xs))"
    by (rule sorted_distinct_set_unique) (simp_all only: sorted_sort distinct_sort dk distinct_remdups sk)
  then show "node_keys document
         = map (\<lambda>n. YScalar (PStr n)) (sort (remdups (map (\<lambda>s. str_of (name s)) xs)))"
    unfolding doc by (simp only: node_keys_str_dict [OF k(3)])
qed

theorem yaml_keys_in_name_order_witness:
  "(Map.empty(''base'' \<mapsto> [db, db_cache])) ''base'' = Some [db, db_cache]
   \<and> list_all (\<lambda>s. is_str (name s)) [db, db_cache]
   \<and> fst (yaml obliging_world (Map.empty(''base'' \<mapsto> [db, db_cache])) ''base'' [])
     = Inr (YMap [(YScalar (PStr ''db''),
                   YMap [(YScalar (PStr ''tag''), YScalar (PStr ''v1.0'')),
                         (YScalar (PStr ''url''), YScalar (PStr ''https://example/db.git''))]),
                  (YScalar (PStr ''db & cache''), YScalar (PStr ''https://example/cache.git''))])
   \<and> sort (remdups (map (\<lambda>s. str_of (name s)) [db, db_cache])) = [''db'', ''db & cache'']
   \<and> node_keys (YMap [(YScalar (PStr ''db''),
                   YMap [(YScalar (PStr ''tag''), YScalar (PStr ''v1.0'')),
                         (YScalar (PStr ''url''), YScalar (PStr ''https://example/db.git''))]),
                  (YScalar (PStr ''db & cache''), YScalar (PStr ''https://example/cache.git''))])
     = map (\<lambda>n. YScalar (PStr n)) [''db'', ''db & cache'']"
proof -
  let ?envs = "Map.empty(''base'' \<mapsto> [db, db_cache])"
  let ?doc = "YMap [(YScalar (PStr ''db''),
                   YMap [(YScalar (PStr ''tag''), YScalar (PStr ''v1.0'')),
                         (YScalar (PStr ''url''), YScalar (PStr ''https://example/db.git''))]),
                  (YScalar (PStr ''db & cache''), YScalar (PStr ''https://example/cache.git''))]"
  have e: "?envs ''base'' = Some [db, db_cache]" by simp
  have t: "list_all (\<lambda>s. is_str (name s)) [db, db_cache]"
    by (simp add: db_def db_cache_def)
  have y: "fst (yaml obliging_world ?envs ''base'' []) = Inr ?doc"
    by code_simp
  have s: "sort (remdups (map (\<lambda>s. str_of (name s)) [db, db_cache])) = [''db'', ''db & cache'']"
    by code_simp
  show ?thesis
    using yaml_keys_in_name_order [of ?envs "''base''" "[db, db_cache]" obliging_world "[]" ?doc]
      e t y s
    by simp
qed

text \<open>
  The claim as worded keeps the insertion order. For the states \<^verbatim>\<open>db\<close> and
  \<^verbatim>\<open>db & cache\<close> the export inserts \<^verbatim>\<open>db & cache\<close> first, its rendering being the
  smaller, and the document has \<^verbatim>\<open>db\<close> first.
\<close>

theorem yaml_keys_not_in_insertion_order:
  "sorted_states [db, db_cache] = [db_cache, db]
   \<and> fst (yaml_update obliging_world (sorted_states [db, db_cache]) [] [])
     = Inr [(PStr ''db & cache'', PStr ''https://example/cache.git''),
            (PStr ''db'', PDict [(PStr ''url'', PStr ''https://example/db.git''),
                                 (PStr ''tag'', PStr ''v1.0'')])]
   \<and> fst (yaml obliging_world (Map.empty(''base'' \<mapsto> [db, db_cache])) ''base'' [])
     = Inr (YMap [(YScalar (PStr ''db''),
                   YMap [(YScalar (PStr ''tag''), YScalar (PStr ''v1.0'')),
                         (YScalar (PStr ''url''), YScalar (PStr ''https://example/db.git''))]),
                  (YScalar (PStr ''db & cache''), YScalar (PStr ''https://example/cache.git''))])"
  by code_simp

section \<open>Reading the document back\<close>

lemma construct_represent_eq_PStr [simp]:
  "(construct (represent k) = PStr n) = (k = PStr n)"
  by (cases k) auto

lemma dict_get_safe_load:
  assumes "distinct (map fst d)"
  shows "\<exists>d'. safe_load (safe_dump (PDict d)) = PDict d'
           \<and> dict_get d' (PStr n)
               = map_option (\<lambda>v. construct (represent v)) (dict_get d (PStr n))"
proof -
  let ?d' = "foldl (\<lambda>a kv. dict_set a (construct (represent (fst kv))) (construct (represent (snd kv))))
               [] (sorted_items d)"
  have l: "safe_load (safe_dump (PDict d)) = PDict ?d'"
    by (simp add: safe_load_def safe_dump_def foldl_map)
  have f: "filter (\<lambda>kv. key_eq (construct (represent (fst kv))) (PStr n)) (sorted_items d)
             = (case map_of d (PStr n) of None \<Rightarrow> [] | Some v \<Rightarrow> [(PStr n, v)])"
    using filter_key_distinct [OF assms, of "PStr n"]
    by (simp add: sorted_items_filter_PStr)
  have "dict_get ?d' (PStr n)
          = (case (case map_of d (PStr n) of None \<Rightarrow> [] | Some v \<Rightarrow> [(PStr n, v)]) of
               [] \<Rightarrow> dict_get [] (PStr n)
             | y # ys \<Rightarrow> Some (construct (represent (snd (last (y # ys))))))"
    by (simp only: dict_get_foldl f)
  then have "dict_get ?d' (PStr n) = map_option (\<lambda>v. construct (represent v)) (map_of d (PStr n))"
    by (cases "map_of d (PStr n)") simp_all
  then have "dict_get ?d' (PStr n) = map_option (\<lambda>v. construct (represent v)) (dict_get d (PStr n))"
    by (simp only: dict_get_map_of_PStr)
  with l show ?thesis by blast
qed

lemma value_roundtrip:
  "rt \<in> {''branch'', ''commit'', ''tag''} \<Longrightarrow>
   construct (represent (PDict [(PStr ''url'', PStr u), (PStr rt, PStr b)]))
     = PDict [(PStr rt, PStr b), (PStr ''url'', PStr u)]"
  by (auto simp: sorted_items_def)

lemma reread_text_State:
  assumes "text_State t"
  shows "outcome (verify_state (PDict [(name t, construct (represent (state_value t)))])) = Inr t"
proof -
  from assms obtain a u where a: "name t = PStr a" and u: "url t = PStr u"
    by (cases "name t"; cases "url t") (simp_all add: text_State_def)
  show ?thesis
  proof (cases "ref t")
    case None
    with a u have "t = \<lparr>name = PStr a, url = PStr u, ref = None\<rparr>" by (cases t) simp
    with a u None show ?thesis
      by (simp add: state_value_def verify_state_def verify_options_def)
  next
    case (Some r)
    with assms obtain b where b: "ref_name r = PStr b"
      by (cases "ref_name r") (simp_all add: text_State_def)
    have rt: "reftype r \<in> {''branch'', ''commit'', ''tag''}" by (cases r) simp_all
    from a u Some have t: "t = \<lparr>name = PStr a, url = PStr u, ref = Some r\<rparr>" by (cases t) simp
    have v: "construct (represent (state_value t))
               = PDict [(PStr (reftype r), PStr b), (PStr ''url'', PStr u)]"
      using value_roundtrip [OF rt] by (simp add: state_value_def Some u b)
    from b have "verify_options (PStr a) (PDict [(PStr (reftype r), PStr b), (PStr ''url'', PStr u)])
        = (Inr \<lparr>name = PStr a, url = PStr u, ref = Some r\<rparr>, PDict [(PStr (reftype r), PStr b)])"
      by (cases r) (simp_all add: verify_options_def state_options_keys_def dict_in_def)
    with a v t show ?thesis
      by (simp add: verify_state_def)
  qed
qed


text \<open>
  Claim C6. Let the states of an environment be as the data model has them (name, URL
  and reference name are strings) and let the export succeed. Decoding the document and
  validating the entry under the name of a state gives back the state that won the merge
  for that name, with its name, URL, kind of reference and reference name; for a state
  whose name no other state has, that is the state itself.
\<close>

theorem export_reread_roundtrip:
  "envs environment = Some xs \<and> list_all text_State xs
     \<and> fst (yaml w envs environment tr) = Inr document \<and> s \<in> set xs
   \<longrightarrow> reread document (name s) = Some (Inr (last (named (name s) (sorted_states xs))))
     \<and> ((\<forall>t\<in>set xs. name t = name s \<longrightarrow> t = s) \<longrightarrow> reread document (name s) = Some (Inr s))"
proof (intro impI)
  assume a: "envs environment = Some xs \<and> list_all text_State xs
     \<and> fst (yaml w envs environment tr) = Inr document \<and> s \<in> set xs"
  then have e: "envs environment = Some xs" and t: "list_all text_State xs"
    and y: "fst (yaml w envs environment tr) = Inr document" and s: "s \<in> set xs"
    by blast+
  let ?d = "foldl (\<lambda>d s. dict_set d (name s) (state_value s)) [] (sorted_states xs)"
  let ?w = "last (named (name s) (sorted_states xs))"
  from t s have "text_State s" by (simp add: list_all_iff)
  then obtain n where n: "name s = PStr n"
    by (cases "name s") (simp_all add: text_State_def)
  note win = named_sorted_last [OF s n]
  from win(1) t have tw: "text_State (last (named (PStr n) (sorted_states xs)))"
    by (simp add: list_all_iff)
  have doc: "document = safe_dump (PDict ?d)"
    by (rule yaml_Inr [of envs environment xs w tr document, OF e y])
  have "distinct (map fst ?d)"
    by (rule foldl_dict_set_distinct) simp
  from dict_get_safe_load [OF this, of n] obtain d' where
    l: "safe_load document = PDict d'" and
    g: "dict_get d' (PStr n) = map_option (\<lambda>v. construct (represent v)) (dict_get ?d (PStr n))"
    unfolding doc by blast
  let ?v = "construct (represent (state_value (last (named (PStr n) (sorted_states xs)))))"
  from g have "dict_get d' (PStr n) = Some ?v"
    by (simp only: final_dict_get [OF s n] option.map)
  with l have "reread document (PStr n) = Some (outcome (verify_state (PDict [(PStr n, ?v)])))"
    by (simp add: reread_def)
  with reread_text_State [OF tw] win(2)
  have r: "reread document (name s) = Some (Inr ?w)"
    by (simp add: n)
  have "?w = s" if "\<forall>t\<in>set xs. name t = name s \<longrightarrow> t = s"
    using that win(1) win(2) by (simp add: n)
  with r show "reread document (name s) = Some (Inr ?w)
     \<and> ((\<forall>t\<in>set xs. name t = name s \<longrightarrow> t = s) \<longrightarrow> reread document (name s) = Some (Inr s))"
    by simp
qed

theorem export_reread_roundtrip_witness:
  "(Map.empty(''base'' \<mapsto> [api, db])) ''base'' = Some [api, db]
   \<and> list_all text_State [api, db]
   \<and> fst (yaml obliging_world (Map.empty(''base'' \<mapsto> [api, db])) ''base'' [])
     = Inr (YMap [(YScalar (PStr ''api''), YScalar (PStr ''https://example/api.git'')),
                  (YScalar (PStr ''db''),
                   YMap [(YScalar (PStr ''tag''), YScalar (PStr ''v1.0'')),
                         (YScalar (PStr ''url''), YScalar (PStr ''https://example/db.git''))])])
   \<and> db \<in> set [api, db] \<and> name api \<noteq> name db
   \<and> reread (YMap [(YScalar (PStr ''api''), YScalar (PStr ''https://example/api.git'')),
                  (YScalar (PStr ''db''),
                   YMap [(YScalar (PStr ''tag''), YScalar (PStr ''v1.0'')),
                         (YScalar (PStr ''url''), YScalar (PStr ''https://example/db.git''))])])
        (name db)
     = Some (Inr db)"
proof -
  let ?envs = "Map.empty(''base'' \<mapsto> [api, db])"
  let ?doc = "YMap [(YScalar (PStr ''api''), YScalar (PStr ''https://example/api.git'')),
                  (YScalar (PStr ''db''),
                   YMap [(YScalar (PStr ''tag''), YScalar (PStr ''v1.0'')),
                         (YScalar (PStr ''url''), YScalar (PStr ''https://example/db.git''))])]"
  have e: "?envs ''base'' = Some [api, db]" by simp
  have t: "list_all text_State [api, db]"
    by (simp add: text_State_def api_def db_def)
  have y: "fst (yaml obliging_world ?envs ''base'' []) = Inr ?doc"
    by code_simp
  have s: "db \<in> set [api, db]" by simp
  have u: "\<forall>t\<in>set [api, db]. name t = name db \<longrightarrow> t = db"
    by (simp add: api_def db_def)
  have "reread ?doc (name db) = Some (Inr db)"
    using export_reread_roundtrip [of ?envs "''base''" "[api, db]" obliging_world "[]" ?doc db]
      e t y s u
    by blast
  moreover have "name api \<noteq> name db"
    by (simp add: api_def db_def)
  ultimately show ?thesis
    using e t y s by blast
qed

end
